theory Spec2Isabelle
  imports Complex_Main
begin

section \<open>Data model\<close>

text \<open>
  A row of the \<^verbatim>\<open>appointments\<close> collection, as the interface
  \<^verbatim>\<open>AppointmentWithModality\<close> of the hook \<^verbatim>\<open>useAppointments\<close> declares it.
  The status column is a plain string in the store, so the record keeps it as a string:
  the four lifecycle values are \<^verbatim>\<open>agendado\<close>, \<^verbatim>\<open>pago\<close>, \<^verbatim>\<open>a_cobrar\<close> and
  \<^verbatim>\<open>cancelado\<close>. Nullable columns are options. Amounts are JavaScript numbers; they
  are modelled as exact rationals (the rounding of doubles is not modelled).
\<close>

record appointment =
  apt_id :: string
  apt_user_id :: string
  apt_client_id :: "string option"
  apt_date :: string
  apt_status :: string
  apt_modality :: "string option"
  apt_modality_id :: "string option"
  apt_valor_total :: "rat option"
  apt_recurrence_id :: "string option"
  apt_booking_source :: string
  apt_payment_status :: "string option"
  apt_is_cortesia :: bool

text \<open>Rows of the collections \<^verbatim>\<open>booking_clients\<close> and \<^verbatim>\<open>modalities\<close>.\<close>

record client =
  cli_id :: string
  cli_user_id :: string
  cli_name :: string
  cli_email :: string
  cli_phone :: "string option"

record modality =
  mod_id :: string
  mod_user_id :: string
  mod_name :: string
  mod_valor :: rat

text \<open>
  What the operations throw. The messages of the source are Portuguese texts; each
  constructor stands for one of them: user not authenticated, modality not found,
  client id required, slot already occupied, availability check failed, client creation
  failed (with the store's message), and an error object of the store passed on as it is.
\<close>

datatype error =
    NotAuthenticated
  | ModalityNotFound
  | ClientIdRequired
  | SlotOccupied
  | SlotCheckFailed
  | ClientCreateFailed string
  | RemoteError string

section \<open>The remote store\<close>

text \<open>
  The store is an external service. The model keeps its three collections, and a log of
  the requests it received, so that a property can say which requests an operation
  issued and in which order. An insert sends a row whose id the store assigns.
\<close>

datatype remote_call =
    SelectModality string string
  | SelectClientsIn "string list" string
  | SelectModalitiesIn "string list" string
  | SelectClientByEmail string string
  | SelectClientById string string
  | SelectAppointmentsOfClient string string
  | InsertClient string string "string option" string
  | SelectSlot string string
  | InsertAppointment appointment
  | DeleteAppointmentsOfClient string string
  | DeleteClient string string

record remote =
  rem_clients :: "client list"
  rem_modalities :: "modality list"
  rem_appointments :: "appointment list"
  rem_calls :: "remote_call list"

text \<open>
  Any request may fail (network, authorization, constraint). Which ones do is a
  parameter of every operation: \<open>fault call\<close> is the message of the error the store
  answers \<open>call\<close> with, \<open>None\<close> when it succeeds.
\<close>

type_synonym faults = "remote_call \<Rightarrow> string option"

definition record_call :: "remote_call \<Rightarrow> remote \<Rightarrow> remote" where
  "record_call c rem = rem\<lparr>rem_calls := rem_calls rem @ [c]\<rparr>"

text \<open>A response of the store's client library: \<^verbatim>\<open>{ data, error }\<close>.\<close>

record 'a response =
  resp_data :: "'a list option"
  resp_error :: "string option"

section \<open>JavaScript values and the clock\<close>

text \<open>
  An optional string argument (\<^verbatim>\<open>date?: string\<close>) is an option; JavaScript treats
  both \<^verbatim>\<open>undefined\<close> and the empty string as false in a condition.
\<close>

definition truthy :: "string option \<Rightarrow> bool" where
  "truthy s = (case s of None \<Rightarrow> False | Some v \<Rightarrow> v \<noteq> [])"

text \<open>
  The program reads the wall clock and parses date strings with the runtime's
  \<^verbatim>\<open>Date\<close>. The runtime is outside the repository, so it is a parameter:
  \<open>now\<close> is \<^verbatim>\<open>new Date()\<close> in milliseconds, \<open>parseDate s\<close> is
  \<^verbatim>\<open>new Date(s)\<close> (\<open>None\<close> for an invalid date), and \<open>startOfDay t\<close> is the
  instant \<^verbatim>\<open>setHours(0, 0, 0, 0)\<close> moves \<open>t\<close> to in the local time zone.
\<close>

record js_clock =
  now :: int
  parseDate :: "string \<Rightarrow> int option"
  startOfDay :: "int \<Rightarrow> int"

text \<open>
  \<^verbatim>\<open>String.prototype.trim\<close> and \<^verbatim>\<open>toLowerCase\<close>. A character of a HOL string
  stands for the code unit with the same number, so the strings of the model are the
  JavaScript strings of code units below 256. There, white space is tab, line feed,
  vertical tab, form feed, carriage return, space and no-break space, and the capital
  letters are A to Z and the accented capitals 0xC0 to 0xDE without the multiplication
  sign 0xD7; each is lowered by adding 0x20.
\<close>

definition is_ws :: "char \<Rightarrow> bool" where
  "is_ws c = (c \<in> set [CHR 0x09, CHR 0x0A, CHR 0x0B, CHR 0x0C, CHR 0x0D, CHR '' '', CHR 0xA0])"

definition trim :: "string \<Rightarrow> string" where
  "trim s = rev (dropWhile is_ws (rev (dropWhile is_ws s)))"

definition upper_letters :: string where
  "upper_letters =
     ''ABCDEFGHIJKLMNOPQRSTUVWXYZ'' @
     [CHR 0xC0, CHR 0xC1, CHR 0xC2, CHR 0xC3, CHR 0xC4, CHR 0xC5, CHR 0xC6,
      CHR 0xC7, CHR 0xC8, CHR 0xC9, CHR 0xCA, CHR 0xCB, CHR 0xCC, CHR 0xCD,
      CHR 0xCE, CHR 0xCF, CHR 0xD0, CHR 0xD1, CHR 0xD2, CHR 0xD3, CHR 0xD4,
      CHR 0xD5, CHR 0xD6, CHR 0xD8, CHR 0xD9, CHR 0xDA, CHR 0xDB, CHR 0xDC,
      CHR 0xDD, CHR 0xDE]"

definition lower_letters :: string where
  "lower_letters =
     ''abcdefghijklmnopqrstuvwxyz'' @
     [CHR 0xE0, CHR 0xE1, CHR 0xE2, CHR 0xE3, CHR 0xE4, CHR 0xE5, CHR 0xE6,
      CHR 0xE7, CHR 0xE8, CHR 0xE9, CHR 0xEA, CHR 0xEB, CHR 0xEC, CHR 0xED,
      CHR 0xEE, CHR 0xEF, CHR 0xF0, CHR 0xF1, CHR 0xF2, CHR 0xF3, CHR 0xF4,
      CHR 0xF5, CHR 0xF6, CHR 0xF8, CHR 0xF9, CHR 0xFA, CHR 0xFB, CHR 0xFC,
      CHR 0xFD, CHR 0xFE]"

definition lower_char :: "char \<Rightarrow> char" where
  "lower_char c =
     (case map_of (zip upper_letters lower_letters) c of
        None \<Rightarrow> c
      | Some l \<Rightarrow> l)"

definition toLowerCase :: "string \<Rightarrow> string" where
  "toLowerCase s = map lower_char s"

text \<open>
  A clock for the concrete checks: now is 2024-03-10T15:00:00Z, days start at
  midnight UTC, and two date strings parse (the day before at 10:00 and the day after
  at 10:00).
\<close>

definition sample_clock :: js_clock where
  "sample_clock =
     \<lparr>now = 1710082800000,
      parseDate = (\<lambda>s. if s = ''2024-03-09T10:00:00Z'' then Some 1709978400000
                       else if s = ''2024-03-11T10:00:00Z'' then Some 1710151200000
                       else None),
      startOfDay = (\<lambda>t. t - t mod 86400000)\<rparr>"

section \<open>Paginated fetcher\<close>

text \<open>
  The same loop is written out in \<^verbatim>\<open>fetchAppointments\<close> (dashboard),
  \<^verbatim>\<open>fetchClients\<close> (client list), the query function and
  \<^verbatim>\<open>getAppointmentsByPeriod\<close> of \<^verbatim>\<open>useAppointments\<close>, and the query function of
  \<^verbatim>\<open>useClientBookings\<close>. Its variables are the fields of the loop state;
  \<open>fetch off\<close> is the store's response to the request for the rows
  \<^verbatim>\<open>range(off, off + pageSize - 1)\<close>.
\<close>

record 'a fetch_state =
  allAppointments :: "'a list"
  from_offset :: nat
  hasMore :: bool
  pageError :: "string option"

definition pageSize :: nat where
  "pageSize = 1000"

text \<open>The branch on \<^verbatim>\<open>pageData && pageData.length > 0\<close>.\<close>

definition accumulate :: "'a fetch_state \<Rightarrow> 'a list option \<Rightarrow> 'a fetch_state" where
  "accumulate st pageData =
     (case pageData of
        None \<Rightarrow> st\<lparr>hasMore := False\<rparr>
      | Some pg \<Rightarrow>
          if length pg > 0 then
            st\<lparr>allAppointments := allAppointments st @ pg,
               from_offset := from_offset st + pageSize,
               hasMore := (length pg = pageSize)\<rparr>
          else st\<lparr>hasMore := False\<rparr>)"

text \<open>The guard against an endless loop: \<^verbatim>\<open>from >= pageSize * 10\<close>.\<close>

definition cap_check :: "'a fetch_state \<Rightarrow> 'a fetch_state" where
  "cap_check st = (if from_offset st \<ge> pageSize * 10 then st\<lparr>hasMore := False\<rparr> else st)"

text \<open>
  \<^verbatim>\<open>while (hasMore) { ... }\<close>; a page error is stored and leaves the loop with
  \<^verbatim>\<open>break\<close>.
\<close>

function paginate_loop :: "(nat \<Rightarrow> 'a response) \<Rightarrow> 'a fetch_state \<Rightarrow> 'a fetch_state" where
  "paginate_loop fetch st =
     (if \<not> hasMore st then st
      else (case resp_error (fetch (from_offset st)) of
              Some e \<Rightarrow> st\<lparr>pageError := Some e\<rparr>
            | None \<Rightarrow>
                paginate_loop fetch
                  (cap_check (accumulate st (resp_data (fetch (from_offset st)))))))"
  by pat_completeness auto
termination
  by (relation "measure (\<lambda>(fetch, st).
        if hasMore st then 1 + (pageSize * 10 - from_offset st) else 0)")
     (auto simp: cap_check_def accumulate_def pageSize_def split: option.splits if_splits)

declare paginate_loop.simps [simp del]

definition paginate :: "(nat \<Rightarrow> 'a response) \<Rightarrow> 'a fetch_state" where
  "paginate fetch =
     paginate_loop fetch
       \<lparr>allAppointments = [], from_offset = 0, hasMore = True, pageError = None\<rparr>"

text \<open>The rows of the page with index \<open>i\<close> (offset \<open>i * pageSize\<close>); none when the data is null.\<close>

definition page :: "(nat \<Rightarrow> 'a response) \<Rightarrow> nat \<Rightarrow> 'a list" where
  "page fetch i = (case resp_data (fetch (i * pageSize)) of None \<Rightarrow> [] | Some p \<Rightarrow> p)"

text \<open>
  A store that answers every range request from a fixed sequence of matching rows, as
  \<^verbatim>\<open>range(from, from + pageSize - 1)\<close> does on an ordered query.
\<close>

definition table_fetch :: "'a list \<Rightarrow> nat \<Rightarrow> 'a response" where
  "table_fetch rows off =
     \<lparr>resp_data = Some (take pageSize (drop off rows)), resp_error = None\<rparr>"

text \<open>
  The request for page \<open>k\<close> is issued and fails with the message \<open>e\<close>: the pages
  before it came back full and without error, and \<open>k\<close> is below the cap of ten pages.
\<close>

definition fails_at :: "(nat \<Rightarrow> 'a response) \<Rightarrow> nat \<Rightarrow> string \<Rightarrow> bool" where
  "fails_at fetch k e \<longleftrightarrow>
     k < 10 \<and>
     (\<forall>i < k. resp_error (fetch (i * pageSize)) = None \<and> length (page fetch i) = pageSize) \<and>
     resp_error (fetch (k * pageSize)) = Some e"

text \<open>A store that answers the first page with 1000 copies of a row and then fails.\<close>

definition second_page_fails :: "'a \<Rightarrow> nat \<Rightarrow> 'a response" where
  "second_page_fails row off =
     (if off = 0 then \<lparr>resp_data = Some (replicate 1000 row), resp_error = None\<rparr>
      else \<lparr>resp_data = None, resp_error = Some ''timeout''\<rparr>)"

subsection \<open>The callers of the loop\<close>

text \<open>
  \<^verbatim>\<open>fetchAppointments\<close> of the dashboard: on a page error it throws inside its own
  \<^verbatim>\<open>try\<close>, and the \<^verbatim>\<open>catch\<close> shows a toast with the error's message; otherwise it
  replaces the appointment list of the page. A toast is a title with the error's
  message as description: \<open>Toast_load_error\<close> is "Erro ao carregar agendamentos",
  \<open>Toast_clients_error\<close> is "Erro ao carregar clientes", \<open>Toast_appointments_error\<close>
  is "Erro ao buscar agendamentos" and \<open>Toast_delete_error\<close> is "Erro ao excluir
  cliente"; \<open>Toast_client_deleted\<close> reports the deleted client's name and the number
  of appointments deleted with it.
\<close>

datatype toast =
    Toast_load_error string
  | Toast_clients_error string
  | Toast_appointments_error string
  | Toast_delete_error string
  | Toast_client_deleted string nat

record 'a dashboard =
  appointments :: "'a list"
  toasts :: "toast list"

definition fetchAppointments :: "(nat \<Rightarrow> 'a response) \<Rightarrow> 'a dashboard \<Rightarrow> 'a dashboard" where
  "fetchAppointments fetch ui =
     (let st = paginate fetch in
      case pageError st of
        Some e \<Rightarrow> ui\<lparr>toasts := toasts ui @ [Toast_load_error e]\<rparr>
      | None \<Rightarrow> ui\<lparr>appointments := allAppointments st\<rparr>)"

text \<open>
  The query function of \<^verbatim>\<open>useClientBookings\<close>. It returns the empty list when
  there is no account id, when a page request failed, when there are no appointments,
  and when the request for the clients failed; otherwise every appointment with the
  client found for it, or with a placeholder client (its name is written here without
  the tilde of the source's text).
\<close>

record booking_client =
  bc_id :: "string option"
  bc_name :: string
  bc_email :: string
  bc_phone :: "string option"

record client_booking = appointment +
  booking_clients :: booking_client

definition truthy_values :: "string option list \<Rightarrow> string list" where
  "truthy_values xs = List.map_filter (\<lambda>x. if truthy x then x else None) xs"

definition unidentified_client :: booking_client where
  "unidentified_client =
     \<lparr>bc_id = None, bc_name = ''Cliente nao identificado'', bc_email = ''N/A'',
      bc_phone = Some ''N/A''\<rparr>"

definition as_booking_client :: "client \<Rightarrow> booking_client" where
  "as_booking_client c =
     \<lparr>bc_id = Some (cli_id c), bc_name = cli_name c, bc_email = cli_email c,
      bc_phone = cli_phone c\<rparr>"

definition attach_client :: "client list \<Rightarrow> appointment \<Rightarrow> client_booking" where
  "attach_client clients apt =
     (let clientData =
            (if truthy (apt_client_id apt)
             then find (\<lambda>c. Some (cli_id c) = apt_client_id apt) clients
             else None)
      in appointment.extend apt
           (client_booking.fields
              (case clientData of
                 None \<Rightarrow> unidentified_client
               | Some c \<Rightarrow> as_booking_client c)))"

definition useClientBookings_queryFn ::
    "string option \<Rightarrow> faults \<Rightarrow> (nat \<Rightarrow> appointment response) \<Rightarrow> remote \<Rightarrow>
     (error + client_booking list) \<times> remote" where
  "useClientBookings_queryFn adminUserId fault fetch rem =
     (case adminUserId of
        None \<Rightarrow> (Inr [], rem)
      | Some uid \<Rightarrow>
          if uid = [] then (Inr [], rem)
          else
            let st = paginate fetch in
            if pageError st \<noteq> None then (Inr [], rem)
            else if allAppointments st = [] then (Inr [], rem)
            else
              let clientIds = truthy_values (map apt_client_id (allAppointments st)) in
              if clientIds = [] then (Inr (map (attach_client []) (allAppointments st)), rem)
              else
                let call = SelectClientsIn clientIds uid;
                    rem1 = record_call call rem
                in (case fault call of
                      Some e \<Rightarrow> (Inr [], rem1)
                    | None \<Rightarrow>
                        (Inr (map (attach_client
                                  (filter (\<lambda>c. cli_id c \<in> set clientIds \<and> cli_user_id c = uid)
                                     (rem_clients rem)))
                                (allAppointments st)),
                         rem1)))"

section \<open>Related-entity cache\<close>

text \<open>
  \<^verbatim>\<open>clientsCache\<close> and \<^verbatim>\<open>modalitiesCache\<close> are module-level maps from the account
  id to a map from entity id to the cached record. The cached records are the columns
  the requests select: id, name, phone for a client and id, name, valor for a modality.
\<close>

record client_info =
  ci_id :: string
  ci_name :: string
  ci_phone :: "string option"

record modality_info =
  mi_id :: string
  mi_name :: string
  mi_valor :: rat

record caches =
  clientsCache :: "string \<rightharpoonup> (string \<rightharpoonup> client_info)"
  modalitiesCache :: "string \<rightharpoonup> (string \<rightharpoonup> modality_info)"

text \<open>\<^verbatim>\<open>[...new Set(xs)]\<close>: the distinct elements, each at its first occurrence.\<close>

definition uniq :: "string list \<Rightarrow> string list" where
  "uniq xs = rev (remdups (rev xs))"

text \<open>\<^verbatim>\<open>cached?.has(id)\<close> on a cache entry that may be missing.\<close>

definition has :: "(string \<rightharpoonup> 'v) option \<Rightarrow> string \<Rightarrow> bool" where
  "has m k = (case m of None \<Rightarrow> False | Some mm \<Rightarrow> mm k \<noteq> None)"

text \<open>\<^verbatim>\<open>new Map(cached || [])\<close>: a copy of the cache entry, empty when there is none.\<close>

definition cache_entry :: "(string \<rightharpoonup> 'v) option \<Rightarrow> (string \<rightharpoonup> 'v)" where
  "cache_entry m = (case m of None \<Rightarrow> Map.empty | Some mm \<Rightarrow> mm)"

text \<open>\<^verbatim>\<open>if (response.data) response.data.forEach(r => map.set(r.id, r))\<close>.\<close>

definition set_all :: "('r \<Rightarrow> string) \<Rightarrow> (string \<rightharpoonup> 'r) \<Rightarrow> 'r list option \<Rightarrow> (string \<rightharpoonup> 'r)" where
  "set_all key m d =
     (case d of None \<Rightarrow> m | Some rows \<Rightarrow> foldl (\<lambda>acc r. acc(key r \<mapsto> r)) m rows)"

definition as_client_info :: "client \<Rightarrow> client_info" where
  "as_client_info c = \<lparr>ci_id = cli_id c, ci_name = cli_name c, ci_phone = cli_phone c\<rparr>"

definition as_modality_info :: "modality \<Rightarrow> modality_info" where
  "as_modality_info m = \<lparr>mi_id = mod_id m, mi_name = mod_name m, mi_valor = mod_valor m\<rparr>"

text \<open>
  The two requests \<^verbatim>\<open>.in('id', ids).eq('user_id', userId)\<close>. Each is issued only for
  a non-empty list of missing ids; otherwise the response is \<^verbatim>\<open>{ data: null }\<close>
  without a request.
\<close>

definition select_clients_in ::
    "faults \<Rightarrow> string list \<Rightarrow> string \<Rightarrow> remote \<Rightarrow> client_info response \<times> remote" where
  "select_clients_in fault ids uid rem =
     (if ids = [] then (\<lparr>resp_data = None, resp_error = None\<rparr>, rem)
      else
        (case fault (SelectClientsIn ids uid) of
           Some e \<Rightarrow>
             (\<lparr>resp_data = None, resp_error = Some e\<rparr>, record_call (SelectClientsIn ids uid) rem)
         | None \<Rightarrow>
             (\<lparr>resp_data = Some (map as_client_info
                  (filter (\<lambda>c. cli_id c \<in> set ids \<and> cli_user_id c = uid) (rem_clients rem))),
               resp_error = None\<rparr>,
              record_call (SelectClientsIn ids uid) rem)))"

definition select_modalities_in ::
    "faults \<Rightarrow> string list \<Rightarrow> string \<Rightarrow> remote \<Rightarrow> modality_info response \<times> remote" where
  "select_modalities_in fault ids uid rem =
     (if ids = [] then (\<lparr>resp_data = None, resp_error = None\<rparr>, rem)
      else
        (case fault (SelectModalitiesIn ids uid) of
           Some e \<Rightarrow>
             (\<lparr>resp_data = None, resp_error = Some e\<rparr>,
              record_call (SelectModalitiesIn ids uid) rem)
         | None \<Rightarrow>
             (\<lparr>resp_data = Some (map as_modality_info
                  (filter (\<lambda>m. mod_id m \<in> set ids \<and> mod_user_id m = uid)
                     (rem_modalities rem))),
               resp_error = None\<rparr>,
              record_call (SelectModalitiesIn ids uid) rem)))"

text \<open>
  \<^verbatim>\<open>fetchRelatedData\<close>. It threads the two caches and the store; it returns the two
  merged maps. \<^verbatim>\<open>user?.id || ''\<close> is the account id.
\<close>

definition account_id :: "string option \<Rightarrow> string" where
  "account_id user_id = (case user_id of None \<Rightarrow> [] | Some u \<Rightarrow> u)"

definition fetchRelatedData ::
    "string option \<Rightarrow> faults \<Rightarrow> 'a appointment_scheme list \<Rightarrow> caches \<Rightarrow> remote \<Rightarrow>
     ((string \<rightharpoonup> client_info) \<times> (string \<rightharpoonup> modality_info)) \<times> caches \<times> remote" where
  "fetchRelatedData user_id fault apts cs rem =
     (if apts = [] then ((Map.empty, Map.empty), cs, rem)
      else
        let uniqueClientIds = uniq (truthy_values (map apt_client_id apts));
            uniqueModalityIds = uniq (truthy_values (map apt_modality_id apts));
            userId = account_id user_id;
            cachedClients = clientsCache cs userId;
            cachedModalities = modalitiesCache cs userId;
            missingClientIds = filter (\<lambda>i. \<not> has cachedClients i) uniqueClientIds;
            missingModalityIds = filter (\<lambda>i. \<not> has cachedModalities i) uniqueModalityIds;
            (clientsResponse, rem1) = select_clients_in fault missingClientIds userId rem;
            (modalitiesResponse, rem2) = select_modalities_in fault missingModalityIds userId rem1;
            newClientsMap =
              set_all ci_id (cache_entry cachedClients) (resp_data clientsResponse);
            newModalitiesMap =
              set_all mi_id (cache_entry cachedModalities) (resp_data modalitiesResponse)
        in ((newClientsMap, newModalitiesMap),
            cs\<lparr>clientsCache := (clientsCache cs)(userId \<mapsto> newClientsMap),
               modalitiesCache := (modalitiesCache cs)(userId \<mapsto> newModalitiesMap)\<rparr>,
            rem2))"

text \<open>The ids a request of the log asks for.\<close>

fun requested_ids :: "remote_call \<Rightarrow> string list" where
  "requested_ids (SelectClientsIn ids u) = ids"
| "requested_ids (SelectModalitiesIn ids u) = ids"
| "requested_ids c = []"

text \<open>The requests the store received between two of its states.\<close>

definition issued :: "remote \<Rightarrow> remote \<Rightarrow> remote_call list" where
  "issued before after = drop (length (rem_calls before)) (rem_calls after)"

text \<open>
  The query function of \<^verbatim>\<open>useAppointments\<close>: the paginated fetch, then the
  related data, then the join that attaches \<^verbatim>\<open>client\<close> (name, phone) and
  \<^verbatim>\<open>modality_info\<close> (name, valor) to every appointment.
\<close>

record appointment_with_modality = appointment +
  awm_client :: "(string \<times> string option) option"
  awm_modality_info :: "(string \<times> rat) option"

definition join_related ::
    "(string \<rightharpoonup> client_info) \<Rightarrow> (string \<rightharpoonup> modality_info) \<Rightarrow> appointment \<Rightarrow>
     appointment_with_modality" where
  "join_related clientsMap modalitiesMap apt =
     (let clientData =
            (case apt_client_id apt of
               None \<Rightarrow> None
             | Some i \<Rightarrow> if i = [] then None else clientsMap i);
          modalityData =
            (case apt_modality_id apt of
               None \<Rightarrow> None
             | Some i \<Rightarrow> if i = [] then None else modalitiesMap i)
      in appointment.extend apt
           (appointment_with_modality.fields
              (map_option (\<lambda>c. (ci_name c, ci_phone c)) clientData)
              (map_option (\<lambda>m. (mi_name m, mi_valor m)) modalityData)))"

definition useAppointments_queryFn ::
    "string option \<Rightarrow> faults \<Rightarrow> (nat \<Rightarrow> appointment response) \<Rightarrow> caches \<Rightarrow> remote \<Rightarrow>
     (error + appointment_with_modality list) \<times> caches \<times> remote" where
  "useAppointments_queryFn user_id fault fetch cs rem =
     (if \<not> truthy user_id then (Inl NotAuthenticated, cs, rem)
      else
        let st = paginate fetch in
        (case pageError st of
           Some e \<Rightarrow> (Inl (RemoteError e), cs, rem)
         | None \<Rightarrow>
             (case fetchRelatedData user_id fault (allAppointments st) cs rem of
                ((clientsMap, modalitiesMap), cs1, rem1) \<Rightarrow>
                  (Inr (map (join_related clientsMap modalitiesMap) (allAppointments st)),
                   cs1, rem1))))"

text \<open>
  \<^verbatim>\<open>getAppointmentsByPeriod\<close> of the same hook repeats the query function on the
  appointments between two dates; the two dates only change the request, whose
  responses are \<open>fetch\<close>.
\<close>

definition getAppointmentsByPeriod ::
    "string option \<Rightarrow> faults \<Rightarrow> (nat \<Rightarrow> appointment response) \<Rightarrow> caches \<Rightarrow> remote \<Rightarrow>
     (error + appointment_with_modality list) \<times> caches \<times> remote" where
  "getAppointmentsByPeriod user_id fault fetch cs rem =
     (if \<not> truthy user_id then (Inl NotAuthenticated, cs, rem)
      else
        let st = paginate fetch in
        (case pageError st of
           Some e \<Rightarrow> (Inl (RemoteError e), cs, rem)
         | None \<Rightarrow>
             (case fetchRelatedData user_id fault (allAppointments st) cs rem of
                ((clientsMap, modalitiesMap), cs1, rem1) \<Rightarrow>
                  (Inr (map (join_related clientsMap modalitiesMap) (allAppointments st)),
                   cs1, rem1))))"

section \<open>Creating an appointment\<close>

text \<open>
  \<^verbatim>\<open>CreateAppointmentData\<close>. The field \<^verbatim>\<open>customValue?: number | null\<close> has three
  kinds of value: left out (\<^verbatim>\<open>undefined\<close>), \<^verbatim>\<open>null\<close>, or a number.
\<close>

datatype custom_value = Undefined | Null | Num rat

record create_appointment_data =
  cad_client_id :: string
  cad_date :: string
  cad_modality_id :: string
  cad_status :: "string option"
  cad_recurrence_id :: "string option"
  cad_booking_source :: "string option"
  cad_is_cortesia :: bool
  cad_customValue :: custom_value

text \<open>
  The expression for \<^verbatim>\<open>valor_total\<close> in the inserted row:
  \<^verbatim>\<open>is_cortesia ? 0 : (customValue !== null ? customValue : modalityData.valor)\<close>.
  The result \<open>None\<close> is \<^verbatim>\<open>undefined\<close>: the request then carries no amount,
  and the row is kept without one (the column's default is not part of the repository).
\<close>

definition valor_total_of :: "bool \<Rightarrow> custom_value \<Rightarrow> rat \<Rightarrow> rat option" where
  "valor_total_of is_cortesia customValue valor =
     (if is_cortesia then Some 0
      else (case customValue of
              Null \<Rightarrow> Some valor
            | Num v \<Rightarrow> Some v
            | Undefined \<Rightarrow> None))"

text \<open>\<^verbatim>\<open>x || d\<close> on an optional string.\<close>

definition or_default :: "string option \<Rightarrow> string \<Rightarrow> string" where
  "or_default x d = (case x of None \<Rightarrow> d | Some v \<Rightarrow> if v = [] then d else v)"

text \<open>\<^verbatim>\<open>.single()\<close>: the row when exactly one matches, an error otherwise.\<close>

definition single :: "'a list \<Rightarrow> 'a option" where
  "single rows = (case rows of [r] \<Rightarrow> Some r | _ \<Rightarrow> None)"

text \<open>
  The mutation function of \<^verbatim>\<open>createAppointmentMutation\<close>; \<open>new_id\<close> is the id the
  store gives the new row.
\<close>

definition createAppointment_mutationFn ::
    "string option \<Rightarrow> faults \<Rightarrow> string \<Rightarrow> create_appointment_data \<Rightarrow> remote \<Rightarrow>
     (error + appointment) \<times> remote" where
  "createAppointment_mutationFn user_id fault new_id d rem =
     (if \<not> truthy user_id then (Inl NotAuthenticated, rem)
      else
        let uid = account_id user_id;
            call1 = SelectModality (cad_modality_id d) uid;
            rem1 = record_call call1 rem;
            modalityData =
              (if fault call1 \<noteq> None then None
               else single (filter (\<lambda>m. mod_id m = cad_modality_id d \<and> mod_user_id m = uid)
                              (rem_modalities rem)))
        in (case modalityData of
              None \<Rightarrow> (Inl ModalityNotFound, rem1)
            | Some m \<Rightarrow>
                let payload =
                      \<lparr>apt_id = [], apt_user_id = uid, apt_client_id = Some (cad_client_id d),
                       apt_date = cad_date d,
                       apt_status = or_default (cad_status d) ''agendado'',
                       apt_modality = None, apt_modality_id = Some (cad_modality_id d),
                       apt_valor_total =
                         valor_total_of (cad_is_cortesia d) (cad_customValue d) (mod_valor m),
                       apt_recurrence_id = cad_recurrence_id d,
                       apt_booking_source = or_default (cad_booking_source d) ''manual'',
                       apt_payment_status = None, apt_is_cortesia = cad_is_cortesia d\<rparr>;
                    rem2 = record_call (InsertAppointment payload) rem1
                in (case fault (InsertAppointment payload) of
                      Some e \<Rightarrow> (Inl (RemoteError e), rem2)
                    | None \<Rightarrow>
                        (Inr (payload\<lparr>apt_id := new_id\<rparr>),
                         rem2\<lparr>rem_appointments :=
                                rem_appointments rem2 @ [payload\<lparr>apt_id := new_id\<rparr>]\<rparr>))))"

section \<open>Booking through the client portal\<close>

text \<open>\<^verbatim>\<open>CreateClientBookingData\<close> of the hook \<^verbatim>\<open>useClientBookings\<close>.\<close>

record client_data =
  cd_name :: string
  cd_email :: string
  cd_phone :: "string option"

record create_booking_data =
  cb_user_id :: string
  cb_client_id :: "string option"
  cb_client_data :: "client_data option"
  cb_date :: string
  cb_modality :: string
  cb_modality_id :: "string option"
  cb_valor_total :: rat
  cb_payment_policy :: "string option"

text \<open>
  The first step of the mutation function: the client id of the request, or, when there
  is none and client data came along, the client of this account with the normalised
  e-mail (\<^verbatim>\<open>maybeSingle\<close>: null unless exactly one row matches, and its error is not
  read), or else a client row created now; \<open>new_client_id\<close> is the id the store gives it.
\<close>

definition resolve_client ::
    "faults \<Rightarrow> string \<Rightarrow> create_booking_data \<Rightarrow> remote \<Rightarrow> (error + string option) \<times> remote" where
  "resolve_client fault new_client_id d rem =
     (case cb_client_data d of
        None \<Rightarrow> (Inr (cb_client_id d), rem)
      | Some cd \<Rightarrow>
          if truthy (cb_client_id d) then (Inr (cb_client_id d), rem)
          else
            let normalizedEmail = toLowerCase (trim (cd_email cd));
                call1 = SelectClientByEmail normalizedEmail (cb_user_id d);
                rem1 = record_call call1 rem;
                existingClient =
                  (if fault call1 \<noteq> None then None
                   else single (filter (\<lambda>c. cli_email c = normalizedEmail
                                            \<and> cli_user_id c = cb_user_id d)
                                  (rem_clients rem)))
            in (case existingClient of
                  Some c \<Rightarrow> (Inr (Some (cli_id c)), rem1)
                | None \<Rightarrow>
                    let phone = (if truthy (cd_phone cd) then cd_phone cd else None);
                        call2 = InsertClient (cd_name cd) normalizedEmail phone (cb_user_id d);
                        rem2 = record_call call2 rem1
                    in (case fault call2 of
                          Some e \<Rightarrow> (Inl (ClientCreateFailed e), rem2)
                        | None \<Rightarrow>
                            (Inr (Some new_client_id),
                             rem2\<lparr>rem_clients := rem_clients rem2 @
                                    [\<lparr>cli_id = new_client_id, cli_user_id = cb_user_id d,
                                      cli_name = cd_name cd, cli_email = normalizedEmail,
                                      cli_phone = phone\<rparr>]\<rparr>))))"

text \<open>
  The rows the availability request selects: same account, exactly the requested
  date-time, status other than cancelado.
\<close>

definition occupying :: "create_booking_data \<Rightarrow> appointment list \<Rightarrow> appointment list" where
  "occupying d apts =
     filter (\<lambda>a. apt_user_id a = cb_user_id d \<and> apt_date a = cb_date d
                 \<and> apt_status a \<noteq> ''cancelado'') apts"

text \<open>
  The row the portal inserts: status agendado and payment status not_required for
  either payment policy, booking source online.
\<close>

definition booking_payload :: "create_booking_data \<Rightarrow> string option \<Rightarrow> appointment" where
  "booking_payload d clientId =
     \<lparr>apt_id = [], apt_user_id = cb_user_id d, apt_client_id = clientId,
      apt_date = cb_date d, apt_status = ''agendado'', apt_modality = Some (cb_modality d),
      apt_modality_id = cb_modality_id d, apt_valor_total = Some (cb_valor_total d),
      apt_recurrence_id = None, apt_booking_source = ''online'',
      apt_payment_status = Some ''not_required'', apt_is_cortesia = False\<rparr>"

text \<open>
  The mutation function of \<^verbatim>\<open>createBookingMutation\<close>; \<open>new_id\<close> is the id the store
  gives the new appointment.
\<close>

definition createBooking_mutationFn ::
    "faults \<Rightarrow> string \<Rightarrow> string \<Rightarrow> create_booking_data \<Rightarrow> remote \<Rightarrow>
     (error + appointment) \<times> remote" where
  "createBooking_mutationFn fault new_client_id new_id d rem =
     (case resolve_client fault new_client_id d rem of
        (Inl e, rem1) \<Rightarrow> (Inl e, rem1)
      | (Inr clientId, rem1) \<Rightarrow>
          if \<not> truthy clientId then (Inl ClientIdRequired, rem1)
          else
            let call3 = SelectSlot (cb_user_id d) (cb_date d);
                rem3 = record_call call3 rem1
            in if fault call3 \<noteq> None then (Inl SlotCheckFailed, rem3)
               else if occupying d (rem_appointments rem3) \<noteq> [] then (Inl SlotOccupied, rem3)
               else
                 let payload = booking_payload d clientId;
                     rem4 = record_call (InsertAppointment payload) rem3
                 in (case fault (InsertAppointment payload) of
                       Some e \<Rightarrow> (Inl (RemoteError e), rem4)
                     | None \<Rightarrow>
                         (Inr (payload\<lparr>apt_id := new_id\<rparr>),
                          rem4\<lparr>rem_appointments :=
                                 rem_appointments rem4 @ [payload\<lparr>apt_id := new_id\<rparr>]\<rparr>)))"

section \<open>The client's own dashboard\<close>

text \<open>
  \<^verbatim>\<open>fetchAgendamentos\<close> of the client dashboard. The logged-in client is an object
  with id, e-mail and name, whose id the function may overwrite; the rows carry the
  joined client (name, e-mail, phone), which may be null.
\<close>

record portal_client =
  pc_id :: "string option"
  pc_email :: string
  pc_name :: string

record portal_appointment = appointment +
  pa_client :: "client_data option"

record portal_page =
  agendamentos :: "portal_appointment list"
  loading :: bool

text \<open>\<^verbatim>\<open>.maybeSingle()\<close>: null for no row, the row for one, an error for more.\<close>

definition maybeSingle :: "'a list \<Rightarrow> string + 'a option" where
  "maybeSingle rows =
     (case rows of
        [] \<Rightarrow> Inr None
      | [r] \<Rightarrow> Inr (Some r)
      | _ \<Rightarrow> Inl ''multiple rows'')"

text \<open>
  The first step: the client must exist for this account under its id, or else under
  its e-mail, whose id is then used. \<open>None\<close> is every early \<^verbatim>\<open>return\<close> of this step.
\<close>

definition check_portal_client ::
    "faults \<Rightarrow> portal_client \<Rightarrow> string \<Rightarrow> string \<Rightarrow> remote \<Rightarrow> string option \<times> remote" where
  "check_portal_client fault pc cid admin rem =
     (let call1 = SelectClientById cid admin;
          rem1 = record_call call1 rem
      in if fault call1 \<noteq> None then (None, rem1)
         else
           (case maybeSingle (filter (\<lambda>c. cli_id c = cid \<and> cli_user_id c = admin)
                                (rem_clients rem)) of
              Inl e \<Rightarrow> (None, rem1)
            | Inr (Some c) \<Rightarrow> (Some cid, rem1)
            | Inr None \<Rightarrow>
                let call2 = SelectClientByEmail (pc_email pc) admin;
                    rem2 = record_call call2 rem1
                in if fault call2 \<noteq> None then (None, rem2)
                   else
                     (case maybeSingle
                             (filter (\<lambda>c. cli_email c = pc_email pc \<and> cli_user_id c = admin)
                                (rem_clients rem)) of
                        Inr (Some c) \<Rightarrow> (Some (cli_id c), rem2)
                      | _ \<Rightarrow> (None, rem2))))"

text \<open>
  \<open>fetch cid\<close> are the responses to the page requests for the appointments of the
  client \<open>cid\<close> in the account, \<open>altFetch\<close> those for all appointments of the account
  (the alternative query, tried when the first finds nothing). The function returns
  the page state and the client object.
\<close>

definition fetchAgendamentos ::
    "faults \<Rightarrow> (string \<Rightarrow> nat \<Rightarrow> portal_appointment response) \<Rightarrow>
     (nat \<Rightarrow> portal_appointment response) \<Rightarrow> portal_client option \<Rightarrow> string option \<Rightarrow>
     portal_page \<Rightarrow> remote \<Rightarrow> (portal_page \<times> portal_client option) \<times> remote" where
  "fetchAgendamentos fault fetch altFetch client adminUserId ui rem =
     (case client of
        None \<Rightarrow> ((ui, client), rem)
      | Some pc \<Rightarrow>
          if \<not> truthy (pc_id pc) \<or> \<not> truthy adminUserId then ((ui, client), rem)
          else
            (case check_portal_client fault pc (or_default (pc_id pc) [])
                    (or_default adminUserId []) rem of
               (None, rem1) \<Rightarrow> ((ui\<lparr>loading := False\<rparr>, client), rem1)
             | (Some cid, rem1) \<Rightarrow>
                 let client1 = Some (pc\<lparr>pc_id := Some cid\<rparr>);
                     st = paginate (fetch cid)
                 in if pageError st \<noteq> None then ((ui\<lparr>loading := False\<rparr>, client1), rem1)
                    else if allAppointments st = [] then
                      let alt = paginate altFetch;
                          clientAppointments =
                            filter (\<lambda>apt. map_option cd_email (pa_client apt) = Some (pc_email pc))
                              (allAppointments alt)
                      in if pageError alt = None \<and> allAppointments alt \<noteq> []
                            \<and> clientAppointments \<noteq> []
                         then ((ui\<lparr>agendamentos := clientAppointments, loading := False\<rparr>,
                                client1), rem1)
                         else ((ui\<lparr>agendamentos := allAppointments st, loading := False\<rparr>,
                                client1), rem1)
                    else ((ui\<lparr>agendamentos := allAppointments st, loading := False\<rparr>,
                           client1), rem1)))"

section \<open>The client list page\<close>

text \<open>
  The state of the client list page that the list and the delete dialog read and write.
  \<^verbatim>\<open>appointmentsForClient\<close> is the list the dialog loaded for the selected client.
\<close>

record appointment_line =
  al_id :: string
  al_date :: string
  al_modality :: "string option"
  al_status :: string

record clients_page =
  clients :: "client list"
  isLoading :: bool
  clientToDelete :: "client option"
  isDeleting :: bool
  loadingAppointments :: bool
  appointmentsForClient :: "appointment_line list"
  confirmClientName :: string
  page_toasts :: "toast list"

text \<open>
  \<^verbatim>\<open>fetchClients\<close>: the loop over the clients of the account; a page error is thrown
  and caught with a toast, and \<^verbatim>\<open>finally\<close> clears \<^verbatim>\<open>isLoading\<close>.
\<close>

definition fetchClients :: "(nat \<Rightarrow> client response) \<Rightarrow> clients_page \<Rightarrow> clients_page" where
  "fetchClients fetch ui =
     (let st = paginate fetch in
      case pageError st of
        Some e \<Rightarrow> ui\<lparr>page_toasts := page_toasts ui @ [Toast_clients_error e], isLoading := False\<rparr>
      | None \<Rightarrow> ui\<lparr>clients := allAppointments st, isLoading := False\<rparr>)"

text \<open>
  \<^verbatim>\<open>openDeleteModal\<close>. Its synchronous part selects the client, marks the list as
  loading, and empties the list and the typed text.
\<close>

definition openDeleteModal_start :: "client \<Rightarrow> clients_page \<Rightarrow> clients_page" where
  "openDeleteModal_start c ui =
     ui\<lparr>clientToDelete := Some c, loadingAppointments := True, appointmentsForClient := [],
        confirmClientName := []\<rparr>"

text \<open>
  Then it asks the store for the appointments of the client in the account \<open>uid\<close>,
  newest first; the store's ordering of rows by date is the parameter \<open>by_date_desc\<close>.
  For the rows without a modality name it asks for the names of their modalities. An
  error of either request is caught and shown as a toast, and the list stays empty;
  \<^verbatim>\<open>finally\<close> clears \<^verbatim>\<open>loadingAppointments\<close>.
\<close>

definition modality_name ::
    "(string \<rightharpoonup> modality_info) \<Rightarrow> appointment \<Rightarrow> string option" where
  "modality_name modalityMap a =
     (if truthy (apt_modality a) then apt_modality a
      else if truthy (apt_modality_id a) then
        (case modalityMap (or_default (apt_modality_id a) []) of
           None \<Rightarrow> None
         | Some m \<Rightarrow> if mi_name m = [] then None else Some (mi_name m))
      else None)"

definition openDeleteModal ::
    "string \<Rightarrow> faults \<Rightarrow> (appointment list \<Rightarrow> appointment list) \<Rightarrow> client \<Rightarrow>
     clients_page \<Rightarrow> remote \<Rightarrow> clients_page \<times> remote" where
  "openDeleteModal uid fault by_date_desc c ui rem =
     (let ui0 = openDeleteModal_start c ui;
          call1 = SelectAppointmentsOfClient (cli_id c) uid;
          rem1 = record_call call1 rem
      in (case fault call1 of
            Some e \<Rightarrow>
              (ui0\<lparr>page_toasts := page_toasts ui0 @ [Toast_appointments_error e],
                  loadingAppointments := False\<rparr>, rem1)
          | None \<Rightarrow>
              let apts = by_date_desc
                    (filter (\<lambda>a. apt_client_id a = Some (cli_id c) \<and> apt_user_id a = uid)
                       (rem_appointments rem));
                  missingModalities =
                    uniq (truthy_values (map apt_modality_id
                      (filter (\<lambda>a. \<not> truthy (apt_modality a) \<and> truthy (apt_modality_id a))
                         apts)));
                  sel = select_modalities_in fault missingModalities uid rem1
              in (case resp_error (fst sel) of
                    Some e \<Rightarrow>
                      (ui0\<lparr>page_toasts := page_toasts ui0 @ [Toast_appointments_error e],
                          loadingAppointments := False\<rparr>, snd sel)
                  | None \<Rightarrow>
                      (ui0\<lparr>appointmentsForClient :=
                             map (\<lambda>a. \<lparr>al_id = apt_id a, al_date = apt_date a,
                                       al_modality =
                                         modality_name
                                           (set_all mi_id Map.empty (resp_data (fst sel))) a,
                                       al_status = apt_status a\<rparr>) apts,
                          loadingAppointments := False\<rparr>, snd sel))))"

text \<open>The \<^verbatim>\<open>disabled\<close> attribute of the dialog's delete button.\<close>

definition delete_disabled :: "clients_page \<Rightarrow> bool" where
  "delete_disabled ui =
     (isDeleting ui \<or>
      (case clientToDelete ui of
         None \<Rightarrow> True
       | Some c \<Rightarrow>
           length (appointmentsForClient ui) > 0 \<and>
           toLowerCase (trim (confirmClientName ui)) \<noteq> toLowerCase (trim (cli_name c))))"

text \<open>
  \<^verbatim>\<open>handleDeleteClient\<close>, for the account \<open>uid\<close>. An error of either request is
  caught and shown as a toast; \<^verbatim>\<open>finally\<close> clears \<^verbatim>\<open>isDeleting\<close>.
\<close>

definition delete_client_row :: "string \<Rightarrow> faults \<Rightarrow> client \<Rightarrow> clients_page \<Rightarrow> remote \<Rightarrow>
     clients_page \<times> remote" where
  "delete_client_row uid fault c ui rem =
     (let call = DeleteClient (cli_id c) uid;
          rem1 = record_call call rem
      in (case fault call of
            Some e \<Rightarrow>
              (ui\<lparr>page_toasts := page_toasts ui @ [Toast_delete_error e], isDeleting := False\<rparr>,
               rem1)
          | None \<Rightarrow>
              (ui\<lparr>clients := filter (\<lambda>x. cli_id x \<noteq> cli_id c) (clients ui),
                  page_toasts := page_toasts ui @
                    [Toast_client_deleted (cli_name c) (length (appointmentsForClient ui))],
                  clientToDelete := None,
                  appointmentsForClient := [],
                  isDeleting := False\<rparr>,
               rem1\<lparr>rem_clients :=
                      filter (\<lambda>x. \<not> (cli_id x = cli_id c \<and> cli_user_id x = uid))
                        (rem_clients rem1)\<rparr>)))"

definition handleDeleteClient :: "string \<Rightarrow> faults \<Rightarrow> clients_page \<Rightarrow> remote \<Rightarrow>
     clients_page \<times> remote" where
  "handleDeleteClient uid fault ui rem =
     (case clientToDelete ui of
        None \<Rightarrow> (ui, rem)
      | Some c \<Rightarrow>
          if length (appointmentsForClient ui) > 0 then
            let call = DeleteAppointmentsOfClient (cli_id c) uid;
                rem1 = record_call call rem
            in (case fault call of
                  Some e \<Rightarrow>
                    (ui\<lparr>page_toasts := page_toasts ui @ [Toast_delete_error e],
                        isDeleting := False\<rparr>,
                     rem1)
                | None \<Rightarrow>
                    delete_client_row uid fault c ui
                      (rem1\<lparr>rem_appointments :=
                              filter (\<lambda>a. \<not> (apt_client_id a = Some (cli_id c)
                                                \<and> apt_user_id a = uid))
                                (rem_appointments rem1)\<rparr>))
          else delete_client_row uid fault c ui rem)"

section \<open>Status derivation of the operator's dashboard\<close>

text \<open>
  \<^verbatim>\<open>isBefore(appointmentDate, today)\<close> after both dates had their time of day
  zeroed. An invalid date is before nothing.
\<close>

definition isBeforeToday :: "js_clock \<Rightarrow> string \<Rightarrow> bool" where
  "isBeforeToday clk date =
     (case parseDate clk date of
        None \<Rightarrow> False
      | Some t \<Rightarrow> startOfDay clk t < startOfDay clk (now clk))"

text \<open>
  The first half of \<^verbatim>\<open>getStatusColor\<close>: the local variable
  \<^verbatim>\<open>effectiveStatus\<close> when the \<^verbatim>\<open>switch\<close> is reached.
\<close>

definition effectiveStatus :: "js_clock \<Rightarrow> string \<Rightarrow> string option \<Rightarrow> bool \<Rightarrow> string" where
  "effectiveStatus clk status date is_cortesia =
     (let e1 = (if truthy date \<and> status = ''agendado'' then
                  (if isBeforeToday clk (case date of Some d \<Rightarrow> d | None \<Rightarrow> [])
                   then (if is_cortesia then ''cortesia'' else ''a_cobrar'')
                   else status)
                else status)
      in if is_cortesia then ''cortesia'' else e1)"

definition getStatusColor ::
    "js_clock \<Rightarrow> string \<Rightarrow> string option \<Rightarrow> string option \<Rightarrow> bool \<Rightarrow> string" where
  "getStatusColor clk status date recurrence_id is_cortesia =
     (let e = effectiveStatus clk status date is_cortesia in
      if truthy recurrence_id then
        (if e = ''pago'' then ''bg-green-100 text-green-800 border-green-200''
         else if e = ''a_cobrar'' then ''bg-red-100 text-red-800 border-red-200''
         else if e = ''cortesia'' then ''bg-pink-100 text-pink-800 border-pink-200''
         else if e = ''agendado'' then ''bg-blue-100 text-blue-800 border-blue-200''
         else if e = ''cancelado'' then ''bg-gray-100 text-gray-600 border-gray-200 line-through''
         else ''bg-blue-50 text-blue-700 border-blue-200'')
      else
        (if e = ''pago'' then ''bg-green-100 text-green-800 border-green-200''
         else if e = ''a_cobrar'' then ''bg-red-100 text-red-800 border-red-200''
         else if e = ''cortesia'' then ''bg-pink-100 text-pink-800 border-pink-200''
         else if e = ''agendado'' then ''bg-purple-100 text-purple-800 border-purple-200''
         else if e = ''cancelado'' then ''bg-gray-100 text-gray-600 border-gray-200 line-through''
         else ''bg-purple-50 text-purple-700 border-purple-200''))"

text \<open>
  The labels \<^verbatim>\<open>getStatusLabel\<close> returns are five fixed texts: Cancelado, Pago,
  Agendado, A Cobrar, and Cortesia (written with a gift emoji in front).
\<close>

datatype status_label = Cancelado | Pago | Agendado | A_Cobrar | Cortesia

definition getStatusLabel :: "js_clock \<Rightarrow> string \<Rightarrow> string option \<Rightarrow> bool \<Rightarrow> status_label" where
  "getStatusLabel clk status date is_cortesia =
     (if truthy date \<and> isBeforeToday clk (case date of Some d \<Rightarrow> d | None \<Rightarrow> [])
           \<and> status = ''agendado''
      then (if is_cortesia then Cortesia else A_Cobrar)
      else if status = ''cancelado'' then Cancelado
      else if status = ''pago'' then Pago
      else if status = ''agendado'' then (if is_cortesia then Cortesia else Agendado)
      else if status = ''a_cobrar'' then A_Cobrar
      else if status = ''cortesia'' then Cortesia
      else A_Cobrar)"

text \<open>The label that belongs to an effective status, for comparing the two functions.\<close>

definition label_of_status :: "string \<Rightarrow> status_label" where
  "label_of_status e =
     (if e = ''cancelado'' then Cancelado
      else if e = ''pago'' then Pago
      else if e = ''agendado'' then Agendado
      else if e = ''cortesia'' then Cortesia
      else A_Cobrar)"

section \<open>Status text of the client portal\<close>

text \<open>\<^verbatim>\<open>getStatusText\<close> of the client dashboard.\<close>

definition getStatusText :: "js_clock \<Rightarrow> string \<Rightarrow> string option \<Rightarrow> string" where
  "getStatusText clk status date =
     (if truthy date \<and>
         (case parseDate clk (case date of Some d \<Rightarrow> d | None \<Rightarrow> []) of
            None \<Rightarrow> False
          | Some t \<Rightarrow> now clk < t)
      then ''Agendado''
      else if status = ''agendado'' \<or> status = ''pago'' then ''Agendado''
      else if status = ''a_cobrar'' then ''Pendente''
      else if status = ''cancelado'' then ''Cancelado''
      else status)"

section \<open>Financial aggregator\<close>

text \<open>
  \<^verbatim>\<open>getFinancialSummary\<close> (hook \<^verbatim>\<open>useAppointments\<close>): a \<^verbatim>\<open>reduce\<close> over the
  appointment list, starting from a summary of zeros. \<^verbatim>\<open>valor_total || 0\<close> reads a
  missing amount as 0.

  The amounts are doubles, and \<^verbatim>\<open>+=\<close> adds them with the runtime's addition, which
  rounds: it is the parameter \<open>fadd\<close> (accumulator first, amount second), about which
  nothing is assumed. Every double is a rational number, so the amounts themselves are
  rationals. The counters only ever grow by one from zero.
\<close>

record summary =
  total_recebido :: rat
  total_pendente :: rat
  total_agendado :: rat
  total_cancelado :: rat
  agendamentos_pagos :: nat
  agendamentos_pendentes :: nat
  agendamentos_agendados :: nat
  agendamentos_cancelados :: nat

definition valor_or_zero :: "'a appointment_scheme \<Rightarrow> rat" where
  "valor_or_zero a = (case apt_valor_total a of None \<Rightarrow> 0 | Some v \<Rightarrow> v)"

definition summary_step ::
    "(rat \<Rightarrow> rat \<Rightarrow> rat) \<Rightarrow> summary \<Rightarrow> 'a appointment_scheme \<Rightarrow> summary" where
  "summary_step fadd s a =
     (let valor = valor_or_zero a in
      if apt_status a = ''pago'' then
        s\<lparr>total_recebido := fadd (total_recebido s) valor,
          agendamentos_pagos := agendamentos_pagos s + 1\<rparr>
      else if apt_status a = ''a_cobrar'' then
        s\<lparr>total_pendente := fadd (total_pendente s) valor,
          agendamentos_pendentes := agendamentos_pendentes s + 1\<rparr>
      else if apt_status a = ''agendado'' then
        s\<lparr>total_agendado := fadd (total_agendado s) valor,
          agendamentos_agendados := agendamentos_agendados s + 1\<rparr>
      else if apt_status a = ''cancelado'' then
        s\<lparr>total_cancelado := fadd (total_cancelado s) valor,
          agendamentos_cancelados := agendamentos_cancelados s + 1\<rparr>
      else s)"

definition summary_zero :: summary where
  "summary_zero =
     \<lparr>total_recebido = 0, total_pendente = 0, total_agendado = 0, total_cancelado = 0,
      agendamentos_pagos = 0, agendamentos_pendentes = 0, agendamentos_agendados = 0,
      agendamentos_cancelados = 0\<rparr>"

definition getFinancialSummary ::
    "(rat \<Rightarrow> rat \<Rightarrow> rat) \<Rightarrow> 'a appointment_scheme list \<Rightarrow> summary" where
  "getFinancialSummary fadd apts = foldl (summary_step fadd) summary_zero apts"

text \<open>
  The amounts of the appointments carrying a status, added in list order with the
  runtime's addition onto a start value; their sum from zero; and their number.
\<close>

definition add_all ::
    "(rat \<Rightarrow> rat \<Rightarrow> rat) \<Rightarrow> rat \<Rightarrow> string \<Rightarrow> 'a appointment_scheme list \<Rightarrow> rat" where
  "add_all fadd start st xs =
     foldl fadd start (map valor_or_zero (filter (\<lambda>a. apt_status a = st) xs))"

definition total_of ::
    "(rat \<Rightarrow> rat \<Rightarrow> rat) \<Rightarrow> string \<Rightarrow> 'a appointment_scheme list \<Rightarrow> rat" where
  "total_of fadd st xs = add_all fadd 0 st xs"

definition count_of :: "string \<Rightarrow> 'a appointment_scheme list \<Rightarrow> nat" where
  "count_of st xs = length (filter (\<lambda>a. apt_status a = st) xs)"

text \<open>
  An addition that rounds, for the concrete checks: the exact sum rounded down to a
  multiple of one tenth. It is not associative.
\<close>

definition tenths_add :: "rat \<Rightarrow> rat \<Rightarrow> rat" where
  "tenths_add x y = of_int \<lfloor>(x + y) * 10\<rfloor> / 10"

section \<open>Sample data for the concrete checks\<close>

definition no_faults :: faults where
  "no_faults = (\<lambda>c. None)"

definition sample_client :: client where
  "sample_client =
     \<lparr>cli_id = ''c1'', cli_user_id = ''u1'', cli_name = ''Ana Souza'',
      cli_email = ''ana@example.com'', cli_phone = None\<rparr>"

definition sample_modality :: modality where
  "sample_modality =
     \<lparr>mod_id = ''m1'', mod_user_id = ''u1'', mod_name = ''Volei'', mod_valor = 120\<rparr>"

text \<open>A sample row: only id, status and amount vary.\<close>

definition sample_apt :: "string \<Rightarrow> string \<Rightarrow> rat \<Rightarrow> appointment" where
  "sample_apt i st v =
     \<lparr>apt_id = i, apt_user_id = ''u1'', apt_client_id = Some ''c1'',
      apt_date = ''2024-03-10T15:00:00'', apt_status = st, apt_modality = None,
      apt_modality_id = Some ''m1'', apt_valor_total = Some v, apt_recurrence_id = None,
      apt_booking_source = ''manual'', apt_payment_status = None, apt_is_cortesia = False\<rparr>"

text \<open>
  A store of the account u1 with one client, one modality priced 120 and one
  appointment on 2024-03-10 at 15:00.
\<close>

definition sample_remote :: remote where
  "sample_remote =
     \<lparr>rem_clients = [sample_client], rem_modalities = [sample_modality],
      rem_appointments = [sample_apt ''a1'' ''agendado'' 120], rem_calls = []\<rparr>"

text \<open>A client of the account without appointments.\<close>

definition other_client :: client where
  "other_client =
     \<lparr>cli_id = ''c9'', cli_user_id = ''u1'', cli_name = ''Bia Lima'',
      cli_email = ''bia@example.com'', cli_phone = None\<rparr>"

text \<open>The sample client logged in to the portal, and a row of the client dashboard.\<close>

definition sample_portal_client :: portal_client where
  "sample_portal_client =
     \<lparr>pc_id = Some ''c1'', pc_email = ''ana@example.com'', pc_name = ''Ana Souza''\<rparr>"

definition sample_portal_row :: portal_appointment where
  "sample_portal_row =
     appointment.extend (sample_apt ''a1'' ''agendado'' 120)
       (portal_appointment.fields
          (Some \<lparr>cd_name = ''Ana Souza'', cd_email = ''ana@example.com'', cd_phone = None\<rparr>))"

text \<open>
  The delete dialog open on the sample client, with one loaded appointment and the
  name typed in lower case with a trailing space.
\<close>

definition sample_page :: clients_page where
  "sample_page =
     \<lparr>clients = [sample_client], isLoading = False, clientToDelete = Some sample_client,
      isDeleting = False,
      loadingAppointments = False,
      appointmentsForClient =
        [\<lparr>al_id = ''a1'', al_date = ''2024-03-10T15:00:00'', al_modality = None,
          al_status = ''agendado''\<rparr>],
      confirmClientName = ''ana souza '', page_toasts = []\<rparr>"

text \<open>
  Two portal requests for the account u1: one from a new person, for the slot the sample
  appointment holds, and one from the known client c1 for a given slot.
\<close>

definition sample_booking :: create_booking_data where
  "sample_booking =
     \<lparr>cb_user_id = ''u1'', cb_client_id = None,
      cb_client_data = Some \<lparr>cd_name = ''Bia'', cd_email = '' Bia@Example.com'', cd_phone = None\<rparr>,
      cb_date = ''2024-03-10T15:00:00'', cb_modality = ''Volei'', cb_modality_id = Some ''m1'',
      cb_valor_total = 120, cb_payment_policy = None\<rparr>"

definition known_booking :: "string \<Rightarrow> create_booking_data" where
  "known_booking date =
     \<lparr>cb_user_id = ''u1'', cb_client_id = Some ''c1'', cb_client_data = None,
      cb_date = date, cb_modality = ''Volei'', cb_modality_id = Some ''m1'',
      cb_valor_total = 120, cb_payment_policy = None\<rparr>"

text \<open>
  Two resolutions in a row for two appointments of the same client and modality,
  starting from empty caches.
\<close>

definition empty_caches :: caches where
  "empty_caches = \<lparr>clientsCache = Map.empty, modalitiesCache = Map.empty\<rparr>"

definition first_round ::
    "((string \<rightharpoonup> client_info) \<times> (string \<rightharpoonup> modality_info)) \<times> caches \<times> remote" where
  "first_round =
     fetchRelatedData (Some ''u1'') no_faults
       [sample_apt ''a1'' ''agendado'' 120, sample_apt ''a2'' ''pago'' 120]
       empty_caches sample_remote"

definition second_round ::
    "((string \<rightharpoonup> client_info) \<times> (string \<rightharpoonup> modality_info)) \<times> caches \<times> remote" where
  "second_round =
     fetchRelatedData (Some ''u1'') no_faults
       [sample_apt ''a1'' ''agendado'' 120, sample_apt ''a2'' ''pago'' 120]
       (fst (snd first_round)) (snd (snd first_round))"

section \<open>Properties of the paginated fetcher\<close>

lemma loop_pages:
  assumes "\<forall>off. resp_error (fetch off) = None"
    and "hasMore st" and "from_offset st = k * pageSize" and "k < 10"
  shows "\<exists>n. k < n \<and> n \<le> 10
           \<and> allAppointments (paginate_loop fetch st) =
               allAppointments st @ concat (map (page fetch) [k..<n])
           \<and> (\<forall>i. k \<le> i \<and> i + 1 < n \<longrightarrow> length (page fetch i) = pageSize)
           \<and> (n < 10 \<longrightarrow> length (page fetch (n - 1)) \<noteq> pageSize)
           \<and> pageError (paginate_loop fetch st) = pageError st"
  using assms
proof (induction "10 - k" arbitrary: k st)
  case 0
  then show ?case by simp
next
  case (Suc m)
  let ?p = "page fetch k"
  let ?st1 = "cap_check (accumulate st (resp_data (fetch (from_offset st))))"
  have step: "paginate_loop fetch st = paginate_loop fetch ?st1"
    using Suc.prems by (subst paginate_loop.simps) simp
  show ?case
  proof (cases "length ?p = pageSize \<and> Suc k < 10")
    case True
    then have st1: "hasMore ?st1" "from_offset ?st1 = Suc k * pageSize"
       "allAppointments ?st1 = allAppointments st @ ?p" "pageError ?st1 = pageError st"
      using Suc.prems
      by (auto simp: cap_check_def accumulate_def page_def pageSize_def split: option.splits)
    have "m = 10 - Suc k" using Suc.hyps(2) by simp
    from Suc.hyps(1)[OF this Suc.prems(1) st1(1) st1(2)] True
    obtain n where n: "Suc k < n" "n \<le> 10"
       "allAppointments (paginate_loop fetch ?st1) =
          allAppointments ?st1 @ concat (map (page fetch) [Suc k..<n])"
       "\<forall>i. Suc k \<le> i \<and> i + 1 < n \<longrightarrow> length (page fetch i) = pageSize"
       "n < 10 \<longrightarrow> length (page fetch (n - 1)) \<noteq> pageSize"
       "pageError (paginate_loop fetch ?st1) = pageError ?st1"
      by auto
    have up: "[k..<n] = k # [Suc k..<n]" using n(1) by (simp add: upt_conv_Cons)
    have full: "\<forall>i. k \<le> i \<and> i + 1 < n \<longrightarrow> length (page fetch i) = pageSize"
    proof (intro allI impI)
      fix i assume i: "k \<le> i \<and> i + 1 < n"
      show "length (page fetch i) = pageSize"
      proof (cases "i = k")
        case True
        then show ?thesis using \<open>length ?p = pageSize \<and> Suc k < 10\<close> by simp
      next
        case False
        with i have "Suc k \<le> i \<and> i + 1 < n" by simp
        with n(4) show ?thesis by blast
      qed
    qed
    show ?thesis
    proof (intro exI[of _ n] conjI)
      show "k < n" using n(1) by simp
      show "n \<le> 10" by (rule n(2))
      show "allAppointments (paginate_loop fetch st) =
              allAppointments st @ concat (map (page fetch) [k..<n])"
        by (simp add: step n(3) st1(3) up)
      show "\<forall>i. k \<le> i \<and> i + 1 < n \<longrightarrow> length (page fetch i) = pageSize" by (rule full)
      show "n < 10 \<longrightarrow> length (page fetch (n - 1)) \<noteq> pageSize" by (rule n(5))
      show "pageError (paginate_loop fetch st) = pageError st"
        by (simp add: step n(6) st1(4))
    qed
  next
    case False
    then have st1: "\<not> hasMore ?st1"
       "allAppointments ?st1 = allAppointments st @ ?p" "pageError ?st1 = pageError st"
      using Suc.prems
      by (auto simp: cap_check_def accumulate_def page_def pageSize_def split: option.splits)
    then have stop: "paginate_loop fetch ?st1 = ?st1" by (subst paginate_loop.simps) simp
    show ?thesis
    proof (intro exI[of _ "Suc k"] conjI)
      show "k < Suc k" by simp
      show "Suc k \<le> 10" using Suc.prems by simp
      show "allAppointments (paginate_loop fetch st) =
              allAppointments st @ concat (map (page fetch) [k..<Suc k])"
        by (simp add: step stop st1(2))
      show "\<forall>i. k \<le> i \<and> i + 1 < Suc k \<longrightarrow> length (page fetch i) = pageSize" by simp
      show "Suc k < 10 \<longrightarrow> length (page fetch (Suc k - 1)) \<noteq> pageSize" using False by auto
      show "pageError (paginate_loop fetch st) = pageError st"
        by (simp add: step stop st1(3))
    qed
  qed
qed

lemma length_concat_pages:
  assumes "\<forall>i. length (page fetch i) \<le> pageSize"
  shows "length (concat (map (page fetch) [0..<n])) \<le> n * pageSize"
proof (induction n)
  case 0
  show ?case by simp
next
  case (Suc n)
  have "length (page fetch n) \<le> pageSize" using assms by blast
  with Suc show ?case by simp
qed

text \<open>
  C1. When no page request fails, the fetch returns the concatenation, in order, of the
  pages it fetched, so its length is the sum of their lengths. It fetches the pages
  0 to n - 1 for some n between 1 and 10: every page before the last has exactly
  1000 rows, and when fewer than 10 pages were fetched the last one does not (the loop
  went on exactly while pages were full and stopped once the offset reached 10000).
  With pages of at most 1000 rows the result has at most 10000 rows.
\<close>

theorem paginate_concat:
  assumes "\<forall>off. resp_error (fetch off) = None"
  shows "\<exists>n. 1 \<le> n \<and> n \<le> 10
     \<and> allAppointments (paginate fetch) = concat (map (page fetch) [0..<n])
     \<and> length (allAppointments (paginate fetch)) = (\<Sum>i\<leftarrow>[0..<n]. length (page fetch i))
     \<and> (\<forall>i. i + 1 < n \<longrightarrow> length (page fetch i) = pageSize)
     \<and> (n < 10 \<longrightarrow> length (page fetch (n - 1)) \<noteq> pageSize)
     \<and> pageError (paginate fetch) = None
     \<and> ((\<forall>i. length (page fetch i) \<le> pageSize) \<longrightarrow>
          length (allAppointments (paginate fetch)) \<le> 10000)"
proof -
  let ?st0 = "\<lparr>allAppointments = [], from_offset = 0, hasMore = True, pageError = None\<rparr>
                :: 'a fetch_state"
  have "\<exists>n. 0 < n \<and> n \<le> 10
           \<and> allAppointments (paginate_loop fetch ?st0) =
               allAppointments ?st0 @ concat (map (page fetch) [0..<n])
           \<and> (\<forall>i. 0 \<le> i \<and> i + 1 < n \<longrightarrow> length (page fetch i) = pageSize)
           \<and> (n < 10 \<longrightarrow> length (page fetch (n - 1)) \<noteq> pageSize)
           \<and> pageError (paginate_loop fetch ?st0) = pageError ?st0"
    by (rule loop_pages[OF assms]) simp_all
  then obtain n where n: "0 < n" "n \<le> 10"
      "allAppointments (paginate fetch) = concat (map (page fetch) [0..<n])"
      "\<forall>i. i + 1 < n \<longrightarrow> length (page fetch i) = pageSize"
      "n < 10 \<longrightarrow> length (page fetch (n - 1)) \<noteq> pageSize"
      "pageError (paginate fetch) = None"
    by (auto simp: paginate_def)
  have len: "length (allAppointments (paginate fetch)) = (\<Sum>i\<leftarrow>[0..<n]. length (page fetch i))"
    by (simp add: n(3) length_concat comp_def)
  have bound: "(\<forall>i. length (page fetch i) \<le> pageSize) \<longrightarrow>
          length (allAppointments (paginate fetch)) \<le> 10000"
  proof
    assume a: "\<forall>i. length (page fetch i) \<le> pageSize"
    have "length (allAppointments (paginate fetch)) \<le> n * pageSize"
      unfolding n(3) by (rule length_concat_pages[OF a])
    also have "\<dots> \<le> 10 * pageSize" using n(2) by simp
    finally show "length (allAppointments (paginate fetch)) \<le> 10000"
      by (simp add: pageSize_def)
  qed
  show ?thesis
    using n len bound by (intro exI[of _ n]) simp
qed

lemma loop_table:
  assumes "hasMore st" and "from_offset st = k * pageSize" and "k < 10"
    and "allAppointments st = take (k * pageSize) rows" and "k * pageSize \<le> length rows"
    and "pageError st = None"
  shows "allAppointments (paginate_loop (table_fetch rows) st) = take (10 * pageSize) rows
         \<and> pageError (paginate_loop (table_fetch rows) st) = None"
  using assms
proof (induction "10 - k" arbitrary: k st)
  case 0
  then show ?case by simp
next
  case (Suc m)
  let ?f = "table_fetch rows"
  let ?pg = "take pageSize (drop (k * pageSize) rows)"
  let ?st1 = "cap_check (accumulate st (resp_data (?f (from_offset st))))"
  have step: "paginate_loop ?f st = paginate_loop ?f ?st1"
    using Suc.prems by (subst paginate_loop.simps) (simp add: table_fetch_def)
  have "Suc k * pageSize = k * pageSize + pageSize" by simp
  then have acc: "allAppointments st @ ?pg = take (Suc k * pageSize) rows"
    using Suc.prems(4) by (simp only: take_add)
  show ?case
  proof (cases "length ?pg = pageSize \<and> Suc k < 10")
    case True
    then have st1: "hasMore ?st1" "from_offset ?st1 = Suc k * pageSize"
       "allAppointments ?st1 = take (Suc k * pageSize) rows" "pageError ?st1 = None"
      using Suc.prems acc
      by (auto simp: cap_check_def accumulate_def table_fetch_def pageSize_def)
    have le: "Suc k * pageSize \<le> length rows"
      using True by (auto simp: pageSize_def min_def split: if_splits)
    have "m = 10 - Suc k" using Suc.hyps(2) by simp
    from Suc.hyps(1)[OF this st1(1) st1(2) _ st1(3) le st1(4)] True step
    show ?thesis by simp
  next
    case False
    then have st1: "\<not> hasMore ?st1" "pageError ?st1 = None"
       "allAppointments ?st1 = (if ?pg = [] then allAppointments st else take (Suc k * pageSize) rows)"
      using Suc.prems acc
      by (auto simp: cap_check_def accumulate_def table_fetch_def pageSize_def)
    then have stop: "paginate_loop ?f ?st1 = ?st1" by (subst paginate_loop.simps) simp
    have "allAppointments ?st1 = take (10 * pageSize) rows"
    proof (cases "Suc k < 10")
      case True
      with False have "length rows < Suc k * pageSize"
        by (auto simp: pageSize_def min_def split: if_splits)
      then show ?thesis using st1(3) Suc.prems(4,5) True
        by (auto simp: pageSize_def)
    next
      case False
      then have "k = 9" using Suc.prems by simp
      then show ?thesis using st1(3) Suc.prems(4,5)
        by (auto simp: pageSize_def)
    qed
    then show ?thesis using step stop st1 by simp
  qed
qed

text \<open>
  Against a store that holds \<open>rows\<close> matching rows, the fetch returns the first
  10000 of them, and all of them when there are no more than that.
\<close>

lemma paginate_table:
  "allAppointments (paginate (table_fetch rows)) = take 10000 rows
   \<and> pageError (paginate (table_fetch rows)) = None"
  using loop_table
    [of "\<lparr>allAppointments = [], from_offset = 0, hasMore = True, pageError = None\<rparr>" 0 rows]
  by (simp add: paginate_def pageSize_def)

theorem paginate_concat_witness:
  "(\<forall>off. resp_error (table_fetch [1, 2, 3 :: nat] off) = None)
   \<and> (\<forall>i. length (page (table_fetch [1, 2, 3 :: nat]) i) \<le> pageSize)
   \<and> length (allAppointments (paginate (table_fetch [1, 2, 3 :: nat]))) \<le> 10000
   \<and> allAppointments (paginate (table_fetch [1, 2, 3 :: nat])) = [1, 2, 3]"
proof -
  have h1: "\<forall>off. resp_error (table_fetch [1, 2, 3 :: nat] off) = None"
    by (simp add: table_fetch_def)
  have h2: "\<forall>i. length (page (table_fetch [1, 2, 3 :: nat]) i) \<le> pageSize"
    by (simp add: page_def table_fetch_def)
  from paginate_concat [OF h1] h2
  have h3: "length (allAppointments (paginate (table_fetch [1, 2, 3 :: nat]))) \<le> 10000"
    by blast
  have h4: "allAppointments (paginate (table_fetch [1, 2, 3 :: nat])) = [1, 2, 3]"
    by (simp add: paginate_table)
  from h1 h2 h3 h4 show ?thesis by blast
qed

subsection \<open>Failing page requests\<close>

lemma loop_error:
  assumes "hasMore st" and "from_offset st = j * pageSize" and "j \<le> k" and "k < 10"
    and "\<forall>i. j \<le> i \<and> i < k \<longrightarrow>
           resp_error (fetch (i * pageSize)) = None \<and> length (page fetch i) = pageSize"
    and "resp_error (fetch (k * pageSize)) = Some e"
  shows "pageError (paginate_loop fetch st) = Some e
         \<and> allAppointments (paginate_loop fetch st) =
             allAppointments st @ concat (map (page fetch) [j..<k])"
  using assms
proof (induction "k - j" arbitrary: j st)
  case 0
  then have "j = k" by simp
  then have "paginate_loop fetch st = st\<lparr>pageError := Some e\<rparr>"
    using "0.prems" by (subst paginate_loop.simps) simp
  then show ?case using \<open>j = k\<close> by simp
next
  case (Suc m)
  then have jk: "j < k" by simp
  let ?st1 = "cap_check (accumulate st (resp_data (fetch (from_offset st))))"
  have pj: "resp_error (fetch (j * pageSize)) = None" "length (page fetch j) = pageSize"
    using Suc.prems(5) jk by auto
  have step: "paginate_loop fetch st = paginate_loop fetch ?st1"
    using Suc.prems pj by (subst paginate_loop.simps) simp
  have st1: "hasMore ?st1" "from_offset ?st1 = Suc j * pageSize"
       "allAppointments ?st1 = allAppointments st @ page fetch j"
    using Suc.prems pj jk
    by (auto simp: cap_check_def accumulate_def page_def pageSize_def split: option.splits)
  have m: "m = k - Suc j" using Suc.hyps(2) by simp
  have rest: "\<forall>i. Suc j \<le> i \<and> i < k \<longrightarrow>
           resp_error (fetch (i * pageSize)) = None \<and> length (page fetch i) = pageSize"
    using Suc.prems(5) by simp
  have sj: "Suc j \<le> k" using jk by simp
  note ih = Suc.hyps(1)[OF m st1(1) st1(2) sj Suc.prems(4) rest Suc.prems(6)]
  have up: "[j..<k] = j # [Suc j..<k]" using jk by (simp add: upt_conv_Cons)
  show ?case using ih by (simp add: step st1(3) up)
qed

lemma fails_at_paginate:
  assumes "fails_at fetch k e"
  shows "pageError (paginate fetch) = Some e"
    and "allAppointments (paginate fetch) = concat (map (page fetch) [0..<k])"
proof -
  from assms have k: "k < 10"
    and full: "\<forall>i. 0 \<le> i \<and> i < k \<longrightarrow>
           resp_error (fetch (i * pageSize)) = None \<and> length (page fetch i) = pageSize"
    and err: "resp_error (fetch (k * pageSize)) = Some e"
    by (simp_all add: fails_at_def)
  have "pageError (paginate fetch) = Some e
         \<and> allAppointments (paginate fetch) = concat (map (page fetch) [0..<k])"
    using loop_error
      [of "\<lparr>allAppointments = [], from_offset = 0, hasMore = True, pageError = None\<rparr>"
          0 k fetch e] k full err
    by (simp add: paginate_def)
  then show "pageError (paginate fetch) = Some e"
    and "allAppointments (paginate fetch) = concat (map (page fetch) [0..<k])"
    by simp_all
qed

lemma second_page_fails_at: "fails_at (second_page_fails row) 1 ''timeout''"
  by (simp add: fails_at_def second_page_fails_def page_def pageSize_def)

lemma second_page_fails_rows:
  "concat (map (page (second_page_fails row)) [0..<1]) = replicate 1000 row"
  by (simp add: second_page_fails_def page_def)

text \<open>
  C8 as stated fails for the portal: when a page request fails, here the second one
  after a full first page, the query function of \<^verbatim>\<open>useClientBookings\<close> returns
  normally with the empty list (\<^verbatim>\<open>if (appointmentsError) return []\<close>), a successful
  empty result and not an error.
\<close>

theorem useClientBookings_swallows_error:
  "resp_error (second_page_fails (sample_apt ''a1'' ''pago'' 100) 1000) = Some ''timeout''
   \<and> length (allAppointments (paginate (second_page_fails (sample_apt ''a1'' ''pago'' 100))))
       = 1000
   \<and> fst (useClientBookings_queryFn (Some ''u1'') no_faults
            (second_page_fails (sample_apt ''a1'' ''pago'' 100)) sample_remote) = Inr []"
proof -
  let ?f = "second_page_fails (sample_apt ''a1'' ''pago'' 100)"
  have e: "pageError (paginate ?f) = Some ''timeout''"
    by (rule fails_at_paginate(1)) (rule second_page_fails_at)
  have r: "allAppointments (paginate ?f) = replicate 1000 (sample_apt ''a1'' ''pago'' 100)"
    using fails_at_paginate(2)[OF second_page_fails_at, of "sample_apt ''a1'' ''pago'' 100"]
    by (simp only: second_page_fails_rows)
  have q: "fst (useClientBookings_queryFn (Some ''u1'') no_faults ?f sample_remote) = Inr []"
    by (simp add: useClientBookings_queryFn_def e)
  have "resp_error (?f 1000) = Some ''timeout''" by (simp add: second_page_fails_def)
  with r q show ?thesis by simp
qed

text \<open>
  C8, amended. When the request for page k fails (the pages before it were full and
  fetched without error), the loop stops there with that error, holding the rows of the
  pages before it, and no caller delivers them. What the caller does with the failure
  differs: \<^verbatim>\<open>fetchAppointments\<close> and \<^verbatim>\<open>fetchClients\<close> add an error toast and leave
  their list as it was; the query function of \<^verbatim>\<open>useAppointments\<close> and
  \<^verbatim>\<open>getAppointmentsByPeriod\<close> throw the error; the query function of
  \<^verbatim>\<open>useClientBookings\<close> returns the empty list; \<^verbatim>\<open>fetchAgendamentos\<close> returns
  without a word and leaves its list as it was when its first loop fails, and sets the
  empty result of its first loop when its alternative loop fails.
\<close>

theorem page_error_aborts:
  "(fails_at fetch k e \<longrightarrow>
        pageError (paginate fetch) = Some e
      \<and> allAppointments (paginate fetch) = concat (map (page fetch) [0..<k])
      \<and> fetchAppointments fetch ui = ui\<lparr>toasts := toasts ui @ [Toast_load_error e]\<rparr>
      \<and> appointments (fetchAppointments fetch ui) = appointments ui)
   \<and> (fails_at cfetch k e \<longrightarrow>
        fetchClients cfetch cui =
          cui\<lparr>page_toasts := page_toasts cui @ [Toast_clients_error e], isLoading := False\<rparr>
      \<and> clients (fetchClients cfetch cui) = clients cui)
   \<and> (fails_at afetch k e \<longrightarrow>
        (truthy user_id \<longrightarrow>
           useAppointments_queryFn user_id fault afetch cs rem = (Inl (RemoteError e), cs, rem)
         \<and> getAppointmentsByPeriod user_id fault afetch cs rem = (Inl (RemoteError e), cs, rem))
      \<and> useClientBookings_queryFn adminUserId fault afetch rem = (Inr [], rem))
   \<and> (pc_id pc = Some cid \<and> cid \<noteq> [] \<and> admin \<noteq> []
        \<and> check_portal_client fault pc cid admin rem = (Some cid', rem1) \<longrightarrow>
        (fails_at (pfetch cid') k e \<longrightarrow>
           fetchAgendamentos fault pfetch altFetch (Some pc) (Some admin) pui rem =
             ((pui\<lparr>loading := False\<rparr>, Some (pc\<lparr>pc_id := Some cid'\<rparr>)), rem1))
      \<and> (pageError (paginate (pfetch cid')) = None \<and> allAppointments (paginate (pfetch cid')) = []
          \<and> fails_at altFetch k e \<longrightarrow>
           fetchAgendamentos fault pfetch altFetch (Some pc) (Some admin) pui rem =
             ((pui\<lparr>agendamentos := [], loading := False\<rparr>, Some (pc\<lparr>pc_id := Some cid'\<rparr>)),
              rem1)))"
proof (intro conjI impI)
  assume f: "fails_at fetch k e"
  show err: "pageError (paginate fetch) = Some e" by (rule fails_at_paginate(1)[OF f])
  show "allAppointments (paginate fetch) = concat (map (page fetch) [0..<k])"
    by (rule fails_at_paginate(2)[OF f])
  show "fetchAppointments fetch ui = ui\<lparr>toasts := toasts ui @ [Toast_load_error e]\<rparr>"
    by (simp add: fetchAppointments_def err)
  show "appointments (fetchAppointments fetch ui) = appointments ui"
    by (simp add: fetchAppointments_def err)
next
  assume f: "fails_at cfetch k e"
  have err: "pageError (paginate cfetch) = Some e" by (rule fails_at_paginate(1)[OF f])
  show "fetchClients cfetch cui =
          cui\<lparr>page_toasts := page_toasts cui @ [Toast_clients_error e], isLoading := False\<rparr>"
    by (simp add: fetchClients_def err)
  show "clients (fetchClients cfetch cui) = clients cui"
    by (simp add: fetchClients_def err)
next
  assume f: "fails_at afetch k e"
  have err: "pageError (paginate afetch) = Some e" by (rule fails_at_paginate(1)[OF f])
  show "useClientBookings_queryFn adminUserId fault afetch rem = (Inr [], rem)"
    by (simp add: useClientBookings_queryFn_def err split: option.splits)
  {
    assume t: "truthy user_id"
    show "useAppointments_queryFn user_id fault afetch cs rem = (Inl (RemoteError e), cs, rem)"
      using t by (simp add: useAppointments_queryFn_def err)
    show "getAppointmentsByPeriod user_id fault afetch cs rem = (Inl (RemoteError e), cs, rem)"
      using t by (simp add: getAppointmentsByPeriod_def err)
  }
next
  assume c: "pc_id pc = Some cid \<and> cid \<noteq> [] \<and> admin \<noteq> []
        \<and> check_portal_client fault pc cid admin rem = (Some cid', rem1)"
    and f: "fails_at (pfetch cid') k e"
  have err: "pageError (paginate (pfetch cid')) = Some e" by (rule fails_at_paginate(1)[OF f])
  show "fetchAgendamentos fault pfetch altFetch (Some pc) (Some admin) pui rem =
             ((pui\<lparr>loading := False\<rparr>, Some (pc\<lparr>pc_id := Some cid'\<rparr>)), rem1)"
    using c by (simp add: fetchAgendamentos_def truthy_def or_default_def err Let_def)
next
  assume c: "pc_id pc = Some cid \<and> cid \<noteq> [] \<and> admin \<noteq> []
        \<and> check_portal_client fault pc cid admin rem = (Some cid', rem1)"
    and a: "pageError (paginate (pfetch cid')) = None
          \<and> allAppointments (paginate (pfetch cid')) = [] \<and> fails_at altFetch k e"
  from a have "fails_at altFetch k e" by simp
  then have err: "pageError (paginate altFetch) = Some e" by (rule fails_at_paginate(1))
  show "fetchAgendamentos fault pfetch altFetch (Some pc) (Some admin) pui rem =
             ((pui\<lparr>agendamentos := [], loading := False\<rparr>, Some (pc\<lparr>pc_id := Some cid'\<rparr>)),
              rem1)"
    using c a by (simp add: fetchAgendamentos_def truthy_def or_default_def err Let_def)
qed

theorem page_error_aborts_witness:
  "fails_at (second_page_fails (sample_apt ''a1'' ''pago'' 100)) 1 ''timeout''
   \<and> allAppointments (paginate (second_page_fails (sample_apt ''a1'' ''pago'' 100))) =
       replicate 1000 (sample_apt ''a1'' ''pago'' 100)
   \<and> fetchAppointments (second_page_fails (sample_apt ''a1'' ''pago'' 100))
        \<lparr>appointments = [sample_apt ''a7'' ''pago'' 100], toasts = []\<rparr>
       = \<lparr>appointments = [sample_apt ''a7'' ''pago'' 100], toasts = [Toast_load_error ''timeout'']\<rparr>
   \<and> clients (fetchClients (second_page_fails sample_client) sample_page) = [sample_client]
   \<and> useAppointments_queryFn (Some ''u1'') no_faults
        (second_page_fails (sample_apt ''a1'' ''pago'' 100)) empty_caches sample_remote
       = (Inl (RemoteError ''timeout''), empty_caches, sample_remote)
   \<and> getAppointmentsByPeriod (Some ''u1'') no_faults
        (second_page_fails (sample_apt ''a1'' ''pago'' 100)) empty_caches sample_remote
       = (Inl (RemoteError ''timeout''), empty_caches, sample_remote)
   \<and> useClientBookings_queryFn (Some ''u1'') no_faults
        (second_page_fails (sample_apt ''a1'' ''pago'' 100)) sample_remote
       = (Inr [], sample_remote)
   \<and> fst (fetchAgendamentos no_faults (\<lambda>cid. second_page_fails sample_portal_row)
        (table_fetch []) (Some sample_portal_client) (Some ''u1'')
        \<lparr>agendamentos = [sample_portal_row], loading = True\<rparr> sample_remote)
       = (\<lparr>agendamentos = [sample_portal_row], loading = False\<rparr>, Some sample_portal_client)
   \<and> fst (fetchAgendamentos no_faults (\<lambda>cid. table_fetch [])
        (second_page_fails sample_portal_row) (Some sample_portal_client) (Some ''u1'')
        \<lparr>agendamentos = [sample_portal_row], loading = True\<rparr> sample_remote)
       = (\<lparr>agendamentos = [], loading = False\<rparr>, Some sample_portal_client)"
proof -
  let ?f = "second_page_fails (sample_apt ''a1'' ''pago'' 100)"
  let ?pf = "second_page_fails sample_portal_row"
  let ?pui = "\<lparr>agendamentos = [sample_portal_row], loading = True\<rparr>"
  have fa: "fails_at ?f 1 ''timeout''" by (rule second_page_fails_at)
  have fc: "fails_at (second_page_fails sample_client) 1 ''timeout''"
    by (rule second_page_fails_at)
  have fp: "fails_at ?pf 1 ''timeout''" by (rule second_page_fails_at)
  have t: "truthy (Some ''u1'')" by (simp add: truthy_def)
  have chk: "pc_id sample_portal_client = Some ''c1'' \<and> ''c1'' \<noteq> [] \<and> ''u1'' \<noteq> []
        \<and> check_portal_client no_faults sample_portal_client ''c1'' ''u1'' sample_remote =
            (Some ''c1'', record_call (SelectClientById ''c1'' ''u1'') sample_remote)"
    by (simp add: check_portal_client_def sample_portal_client_def sample_remote_def
          sample_client_def no_faults_def maybeSingle_def record_call_def Let_def)
  have empty: "pageError (paginate (table_fetch ([] :: portal_appointment list))) = None
       \<and> allAppointments (paginate (table_fetch ([] :: portal_appointment list))) = []"
    by (simp add: paginate_table)
  have same: "sample_portal_client\<lparr>pc_id := Some ''c1''\<rparr> = sample_portal_client"
    by (simp add: sample_portal_client_def)
  note main = page_error_aborts
    [where fetch="?f" and k=1 and e="''timeout''" and cfetch="second_page_fails sample_client"
       and afetch="?f" and ui="\<lparr>appointments = [sample_apt ''a7'' ''pago'' 100], toasts = []\<rparr>"
       and cui=sample_page and user_id="Some ''u1''" and fault=no_faults and cs=empty_caches
       and rem=sample_remote and adminUserId="Some ''u1''" and pc=sample_portal_client
       and cid="''c1''" and admin="''u1''" and cid'="''c1''"
       and ?rem1.0="record_call (SelectClientById ''c1'' ''u1'') sample_remote"
       and pui="?pui"]
  note prim = main [where pfetch="\<lambda>cid. ?pf" and altFetch="table_fetch []"]
  note alt = main [where pfetch="\<lambda>cid. table_fetch []" and altFetch="?pf"]
  have a: "allAppointments (paginate ?f) = replicate 1000 (sample_apt ''a1'' ''pago'' 100)"
    using prim fa by (simp only: second_page_fails_rows)
  have b: "fetchAppointments ?f \<lparr>appointments = [sample_apt ''a7'' ''pago'' 100], toasts = []\<rparr>
       = \<lparr>appointments = [sample_apt ''a7'' ''pago'' 100], toasts = [Toast_load_error ''timeout'']\<rparr>"
    using prim fa by simp
  have c: "clients (fetchClients (second_page_fails sample_client) sample_page) = [sample_client]"
    using prim fc by (simp add: sample_page_def)
  have d: "useAppointments_queryFn (Some ''u1'') no_faults ?f empty_caches sample_remote
       = (Inl (RemoteError ''timeout''), empty_caches, sample_remote)"
    using prim fa t by blast
  have d': "getAppointmentsByPeriod (Some ''u1'') no_faults ?f empty_caches sample_remote
       = (Inl (RemoteError ''timeout''), empty_caches, sample_remote)"
    using prim fa t by blast
  have e: "useClientBookings_queryFn (Some ''u1'') no_faults ?f sample_remote
       = (Inr [], sample_remote)"
    using prim fa by blast
  have g: "fst (fetchAgendamentos no_faults (\<lambda>cid. ?pf) (table_fetch [])
        (Some sample_portal_client) (Some ''u1'') ?pui sample_remote)
       = (\<lparr>agendamentos = [sample_portal_row], loading = False\<rparr>, Some sample_portal_client)"
    using prim chk fp by (simp add: same)
  have h: "fst (fetchAgendamentos no_faults (\<lambda>cid. table_fetch []) ?pf
        (Some sample_portal_client) (Some ''u1'') ?pui sample_remote)
       = (\<lparr>agendamentos = [], loading = False\<rparr>, Some sample_portal_client)"
    using alt chk fp empty by (simp add: same)
  from fa a b c d d' e g h show ?thesis by blast
qed

section \<open>Properties of the financial aggregator\<close>

lemma foldl_summary_step:
  "foldl (summary_step fadd) s xs =
     \<lparr>total_recebido = add_all fadd (total_recebido s) ''pago'' xs,
      total_pendente = add_all fadd (total_pendente s) ''a_cobrar'' xs,
      total_agendado = add_all fadd (total_agendado s) ''agendado'' xs,
      total_cancelado = add_all fadd (total_cancelado s) ''cancelado'' xs,
      agendamentos_pagos = agendamentos_pagos s + count_of ''pago'' xs,
      agendamentos_pendentes = agendamentos_pendentes s + count_of ''a_cobrar'' xs,
      agendamentos_agendados = agendamentos_agendados s + count_of ''agendado'' xs,
      agendamentos_cancelados = agendamentos_cancelados s + count_of ''cancelado'' xs\<rparr>"
proof (induction xs arbitrary: s)
  case Nil
  show ?case by (simp add: add_all_def count_of_def)
next
  case (Cons a xs)
  show ?case
    unfolding foldl_Cons Cons.IH
    by (simp add: summary_step_def add_all_def count_of_def Let_def)
qed

lemma add_all_exact:
  "(\<And>x y. fadd x y = x + y) \<Longrightarrow>
     add_all fadd start st xs =
       start + sum_list (map valor_or_zero (filter (\<lambda>a. apt_status a = st) xs))"
  unfolding add_all_def
  by (induction xs arbitrary: start) (simp_all add: add.assoc)

text \<open>
  C5. For every list of appointments the aggregator returns, for each of the statuses
  pago, a_cobrar, agendado and cancelado, the total of the amounts of the appointments
  carrying exactly that status, added from zero in list order with the runtime's own
  addition, and their number; an appointment with any other status changes nothing.
  Where that addition is exact the total is the plain sum. Adding to zero gives the
  amount itself in the runtime, and then the list [pago 100, a_cobrar 50, cancelado 30]
  yields 100 (1), 50 (1), 30 (1) and, for agendado, 0 (0).
\<close>

theorem getFinancialSummary_totals:
  "getFinancialSummary fadd xs =
     \<lparr>total_recebido = total_of fadd ''pago'' xs,
      total_pendente = total_of fadd ''a_cobrar'' xs,
      total_agendado = total_of fadd ''agendado'' xs,
      total_cancelado = total_of fadd ''cancelado'' xs,
      agendamentos_pagos = count_of ''pago'' xs,
      agendamentos_pendentes = count_of ''a_cobrar'' xs,
      agendamentos_agendados = count_of ''agendado'' xs,
      agendamentos_cancelados = count_of ''cancelado'' xs\<rparr>
   \<and> (apt_status a \<notin> {''pago'', ''a_cobrar'', ''agendado'', ''cancelado''} \<longrightarrow>
        getFinancialSummary fadd (xs @ [a]) = getFinancialSummary fadd xs)
   \<and> ((\<forall>x y. fadd x y = x + y) \<longrightarrow>
        total_of fadd st xs =
          sum_list (map valor_or_zero (filter (\<lambda>a. apt_status a = st) xs)))
   \<and> ((\<forall>v. fadd 0 v = v) \<longrightarrow>
        getFinancialSummary fadd
          [p\<lparr>apt_status := ''pago'', apt_valor_total := Some 100\<rparr>,
           q\<lparr>apt_status := ''a_cobrar'', apt_valor_total := Some 50\<rparr>,
           r\<lparr>apt_status := ''cancelado'', apt_valor_total := Some 30\<rparr>] =
         \<lparr>total_recebido = 100, total_pendente = 50, total_agendado = 0, total_cancelado = 30,
          agendamentos_pagos = 1, agendamentos_pendentes = 1, agendamentos_agendados = 0,
          agendamentos_cancelados = 1\<rparr>)"
proof (intro conjI impI)
  show "getFinancialSummary fadd xs =
     \<lparr>total_recebido = total_of fadd ''pago'' xs,
      total_pendente = total_of fadd ''a_cobrar'' xs,
      total_agendado = total_of fadd ''agendado'' xs,
      total_cancelado = total_of fadd ''cancelado'' xs,
      agendamentos_pagos = count_of ''pago'' xs,
      agendamentos_pendentes = count_of ''a_cobrar'' xs,
      agendamentos_agendados = count_of ''agendado'' xs,
      agendamentos_cancelados = count_of ''cancelado'' xs\<rparr>"
    by (simp add: getFinancialSummary_def foldl_summary_step summary_zero_def total_of_def)
next
  assume "apt_status a \<notin> {''pago'', ''a_cobrar'', ''agendado'', ''cancelado''}"
  then show "getFinancialSummary fadd (xs @ [a]) = getFinancialSummary fadd xs"
    by (simp add: getFinancialSummary_def summary_step_def)
next
  assume "\<forall>x y. fadd x y = x + y"
  then show "total_of fadd st xs =
          sum_list (map valor_or_zero (filter (\<lambda>a. apt_status a = st) xs))"
    by (simp add: total_of_def add_all_exact)
next
  assume "\<forall>v. fadd 0 v = v"
  then show "getFinancialSummary fadd
          [p\<lparr>apt_status := ''pago'', apt_valor_total := Some 100\<rparr>,
           q\<lparr>apt_status := ''a_cobrar'', apt_valor_total := Some 50\<rparr>,
           r\<lparr>apt_status := ''cancelado'', apt_valor_total := Some 30\<rparr>] =
         \<lparr>total_recebido = 100, total_pendente = 50, total_agendado = 0, total_cancelado = 30,
          agendamentos_pagos = 1, agendamentos_pendentes = 1, agendamentos_agendados = 0,
          agendamentos_cancelados = 1\<rparr>"
    by (simp add: getFinancialSummary_def summary_step_def summary_zero_def valor_or_zero_def)
qed

theorem getFinancialSummary_totals_witness:
  "apt_status (sample_apt ''a2'' ''cortesia'' 40) \<notin> {''pago'', ''a_cobrar'', ''agendado'', ''cancelado''}
   \<and> getFinancialSummary tenths_add
        ([sample_apt ''a1'' ''pago'' 100] @ [sample_apt ''a2'' ''cortesia'' 40]) =
       getFinancialSummary tenths_add [sample_apt ''a1'' ''pago'' 100]
   \<and> total_recebido (getFinancialSummary tenths_add
        [sample_apt ''a1'' ''pago'' (1/4), sample_apt ''a3'' ''pago'' (1/4),
         sample_apt ''a4'' ''a_cobrar'' 7, sample_apt ''a5'' ''pago'' (1/2)]) = 9/10
   \<and> (\<forall>v. (+) (0::rat) v = v)
   \<and> getFinancialSummary (+)
        [sample_apt ''a1'' ''pago'' 100, sample_apt ''a2'' ''a_cobrar'' 50,
         sample_apt ''a3'' ''cancelado'' 30] =
       \<lparr>total_recebido = 100, total_pendente = 50, total_agendado = 0, total_cancelado = 30,
        agendamentos_pagos = 1, agendamentos_pendentes = 1, agendamentos_agendados = 0,
        agendamentos_cancelados = 1\<rparr>
   \<and> total_of (+) ''pago'' [sample_apt ''a1'' ''pago'' (1/4), sample_apt ''a3'' ''pago'' (1/2)] = 3/4"
proof -
  have h: "apt_status (sample_apt ''a2'' ''cortesia'' 40) \<notin>
             {''pago'', ''a_cobrar'', ''agendado'', ''cancelado''}"
    by (simp add: sample_apt_def)
  have "apt_status (sample_apt ''a2'' ''cortesia'' 40) \<notin>
          {''pago'', ''a_cobrar'', ''agendado'', ''cancelado''} \<longrightarrow>
        getFinancialSummary tenths_add
          ([sample_apt ''a1'' ''pago'' 100] @ [sample_apt ''a2'' ''cortesia'' 40]) =
          getFinancialSummary tenths_add [sample_apt ''a1'' ''pago'' 100]"
    by (rule getFinancialSummary_totals [THEN conjunct2, THEN conjunct1])
  with h have a: "getFinancialSummary tenths_add
          ([sample_apt ''a1'' ''pago'' 100] @ [sample_apt ''a2'' ''cortesia'' 40]) =
          getFinancialSummary tenths_add [sample_apt ''a1'' ''pago'' 100]"
    by blast
  have t: "total_of tenths_add ''pago''
        [sample_apt ''a1'' ''pago'' (1/4), sample_apt ''a3'' ''pago'' (1/4),
         sample_apt ''a4'' ''a_cobrar'' 7, sample_apt ''a5'' ''pago'' (1/2)] = 9/10"
  proof -
    have f1: "\<lfloor>(5::rat) / 2\<rfloor> = 2" by (rule floor_unique) simp_all
    have f2: "\<lfloor>(9::rat) / 2\<rfloor> = 4" by (rule floor_unique) simp_all
    show ?thesis
      by (simp add: total_of_def add_all_def sample_apt_def valor_or_zero_def tenths_add_def
            f1 f2)
  qed
  have "total_recebido (getFinancialSummary tenths_add
        [sample_apt ''a1'' ''pago'' (1/4), sample_apt ''a3'' ''pago'' (1/4),
         sample_apt ''a4'' ''a_cobrar'' 7, sample_apt ''a5'' ''pago'' (1/2)]) =
      total_of tenths_add ''pago''
        [sample_apt ''a1'' ''pago'' (1/4), sample_apt ''a3'' ''pago'' (1/4),
         sample_apt ''a4'' ''a_cobrar'' 7, sample_apt ''a5'' ''pago'' (1/2)]"
    by (subst getFinancialSummary_totals [THEN conjunct1]) simp
  with t have b: "total_recebido (getFinancialSummary tenths_add
        [sample_apt ''a1'' ''pago'' (1/4), sample_apt ''a3'' ''pago'' (1/4),
         sample_apt ''a4'' ''a_cobrar'' 7, sample_apt ''a5'' ''pago'' (1/2)]) = 9/10"
    by simp
  have z: "\<forall>v. (+) (0::rat) v = v" by simp
  have "(\<forall>v. (+) (0::rat) v = v) \<longrightarrow>
        getFinancialSummary (+)
          [(sample_apt ''a1'' ''pago'' 100)\<lparr>apt_status := ''pago'', apt_valor_total := Some 100\<rparr>,
           (sample_apt ''a2'' ''a_cobrar'' 50)\<lparr>apt_status := ''a_cobrar'', apt_valor_total := Some 50\<rparr>,
           (sample_apt ''a3'' ''cancelado'' 30)\<lparr>apt_status := ''cancelado'', apt_valor_total := Some 30\<rparr>] =
         \<lparr>total_recebido = 100, total_pendente = 50, total_agendado = 0, total_cancelado = 30,
          agendamentos_pagos = 1, agendamentos_pendentes = 1, agendamentos_agendados = 0,
          agendamentos_cancelados = 1\<rparr>"
    by (rule getFinancialSummary_totals
          [THEN conjunct2, THEN conjunct2, THEN conjunct2])
  with z have c: "getFinancialSummary (+)
        [sample_apt ''a1'' ''pago'' 100, sample_apt ''a2'' ''a_cobrar'' 50,
         sample_apt ''a3'' ''cancelado'' 30] =
       \<lparr>total_recebido = 100, total_pendente = 50, total_agendado = 0, total_cancelado = 30,
        agendamentos_pagos = 1, agendamentos_pendentes = 1, agendamentos_agendados = 0,
        agendamentos_cancelados = 1\<rparr>"
    by (simp add: sample_apt_def)
  have "(\<forall>x y. (+) (x::rat) y = x + y) \<longrightarrow>
        total_of (+) ''pago'' [sample_apt ''a1'' ''pago'' (1/4), sample_apt ''a3'' ''pago'' (1/2)] =
          sum_list (map valor_or_zero (filter (\<lambda>a. apt_status a = ''pago'')
            [sample_apt ''a1'' ''pago'' (1/4), sample_apt ''a3'' ''pago'' (1/2)]))"
    by (rule getFinancialSummary_totals
          [THEN conjunct2, THEN conjunct2, THEN conjunct1])
  then have d: "total_of (+) ''pago''
        [sample_apt ''a1'' ''pago'' (1/4), sample_apt ''a3'' ''pago'' (1/2)] = 3/4"
    by (simp add: sample_apt_def valor_or_zero_def)
  from h a b z c d show ?thesis by blast
qed

section \<open>Properties of the status derivation\<close>

text \<open>
  C3, at the input where the code departs from it. A complimentary appointment whose
  raw status is pago gets the effective status cortesia, and so the pink colour, from
  \<^verbatim>\<open>getStatusColor\<close>, but \<^verbatim>\<open>getStatusLabel\<close> answers Pago for it, whatever the
  date and the clock; the same happens for cancelado and a_cobrar.
\<close>

theorem getStatusLabel_cortesia_pago:
  "getStatusLabel clk ''pago'' date True = Pago
   \<and> getStatusLabel clk ''cancelado'' date True = Cancelado
   \<and> getStatusLabel clk ''a_cobrar'' date True = A_Cobrar
   \<and> effectiveStatus clk ''pago'' date True = ''cortesia''
   \<and> getStatusColor clk ''pago'' date None True = ''bg-pink-100 text-pink-800 border-pink-200''"
  by (simp add: getStatusLabel_def effectiveStatus_def getStatusColor_def truthy_def)

text \<open>
  The colour side of C3 holds: with the complimentary flag set the effective status is
  cortesia for every raw status and every date.
\<close>

lemma effectiveStatus_cortesia: "effectiveStatus clk status date True = ''cortesia''"
  by (simp add: effectiveStatus_def)

text \<open>
  C4. For a non-complimentary appointment the effective status is a_cobrar when the raw
  status is agendado and the appointment's day is strictly before today (both with the
  time of day zeroed), and the raw status in every other case; for the four lifecycle
  statuses the label of \<^verbatim>\<open>getStatusLabel\<close> is the label of that effective status.
\<close>

theorem effectiveStatus_not_cortesia:
  "(status = ''agendado'' \<and> parseDate clk d = Some t
      \<and> startOfDay clk t < startOfDay clk (now clk) \<and> d \<noteq> [] \<longrightarrow>
      effectiveStatus clk status (Some d) False = ''a_cobrar'')
   \<and> (\<not> (status = ''agendado'' \<and> truthy date
          \<and> isBeforeToday clk (case date of Some d \<Rightarrow> d | None \<Rightarrow> [])) \<longrightarrow>
      effectiveStatus clk status date False = status)
   \<and> (status \<in> {''agendado'', ''pago'', ''a_cobrar'', ''cancelado''} \<longrightarrow>
      getStatusLabel clk status date False =
        label_of_status (effectiveStatus clk status date False))"
  by (auto simp: effectiveStatus_def getStatusLabel_def label_of_status_def truthy_def
        isBeforeToday_def)

theorem effectiveStatus_not_cortesia_witness:
  "effectiveStatus sample_clock ''agendado'' (Some ''2024-03-09T10:00:00Z'') False = ''a_cobrar''
   \<and> effectiveStatus sample_clock ''agendado'' (Some ''2024-03-11T10:00:00Z'') False = ''agendado''
   \<and> getStatusLabel sample_clock ''agendado'' (Some ''2024-03-09T10:00:00Z'') False = A_Cobrar"
proof -
  have past: "''agendado'' = ''agendado'' \<and>
      parseDate sample_clock ''2024-03-09T10:00:00Z'' = Some 1709978400000 \<and>
      startOfDay sample_clock 1709978400000 < startOfDay sample_clock (now sample_clock) \<and>
      ''2024-03-09T10:00:00Z'' \<noteq> []"
    by (simp add: sample_clock_def)
  have future: "\<not> (''agendado'' = ''agendado'' \<and> truthy (Some ''2024-03-11T10:00:00Z'') \<and>
      isBeforeToday sample_clock
        (case Some ''2024-03-11T10:00:00Z'' of Some d \<Rightarrow> d | None \<Rightarrow> []))"
    by (simp add: sample_clock_def isBeforeToday_def)
  have member: "''agendado'' \<in> {''agendado'', ''pago'', ''a_cobrar'', ''cancelado''}"
    by simp
  note thm1 = effectiveStatus_not_cortesia
    [of "''agendado''" sample_clock "''2024-03-09T10:00:00Z''" 1709978400000
        "Some ''2024-03-09T10:00:00Z''"]
  note thm2 = effectiveStatus_not_cortesia
    [of "''agendado''" sample_clock "''2024-03-09T10:00:00Z''" 1709978400000
        "Some ''2024-03-11T10:00:00Z''"]
  have a: "effectiveStatus sample_clock ''agendado'' (Some ''2024-03-09T10:00:00Z'') False
             = ''a_cobrar''"
    using thm1 past by blast
  have b: "effectiveStatus sample_clock ''agendado'' (Some ''2024-03-11T10:00:00Z'') False
             = ''agendado''"
    using thm2 future by blast
  have "getStatusLabel sample_clock ''agendado'' (Some ''2024-03-09T10:00:00Z'') False
          = label_of_status (effectiveStatus sample_clock ''agendado''
              (Some ''2024-03-09T10:00:00Z'') False)"
    using thm1 member by blast
  then have c: "getStatusLabel sample_clock ''agendado'' (Some ''2024-03-09T10:00:00Z'') False
                  = A_Cobrar"
    by (simp add: a label_of_status_def)
  from a b c show ?thesis by blast
qed

text \<open>
  C10. In the client portal an appointment dated strictly after the current moment is
  shown as Agendado whatever its stored status, cancelado and a_cobrar included; the
  stored status decides the text only when the date is at or before the current moment.
\<close>

theorem getStatusText_future:
  "(d \<noteq> [] \<and> parseDate clk d = Some t \<and> now clk < t \<longrightarrow>
      getStatusText clk status (Some d) = ''Agendado'')
   \<and> (d \<noteq> [] \<and> parseDate clk d = Some t \<and> t \<le> now clk \<longrightarrow>
      getStatusText clk status (Some d) =
        (if status = ''agendado'' \<or> status = ''pago'' then ''Agendado''
         else if status = ''a_cobrar'' then ''Pendente''
         else if status = ''cancelado'' then ''Cancelado''
         else status))"
  by (simp add: getStatusText_def truthy_def)

theorem getStatusText_future_witness:
  "getStatusText sample_clock ''cancelado'' (Some ''2024-03-11T10:00:00Z'') = ''Agendado''
   \<and> getStatusText sample_clock ''a_cobrar'' (Some ''2024-03-11T10:00:00Z'') = ''Agendado''
   \<and> getStatusText sample_clock ''cancelado'' (Some ''2024-03-09T10:00:00Z'') = ''Cancelado''"
proof -
  have fut: "''2024-03-11T10:00:00Z'' \<noteq> [] \<and>
      parseDate sample_clock ''2024-03-11T10:00:00Z'' = Some 1710151200000 \<and>
      now sample_clock < 1710151200000"
    by (simp add: sample_clock_def)
  have pst: "''2024-03-09T10:00:00Z'' \<noteq> [] \<and>
      parseDate sample_clock ''2024-03-09T10:00:00Z'' = Some 1709978400000 \<and>
      1709978400000 \<le> now sample_clock"
    by (simp add: sample_clock_def)
  have a: "getStatusText sample_clock ''cancelado'' (Some ''2024-03-11T10:00:00Z'') = ''Agendado''"
    using getStatusText_future
      [of "''2024-03-11T10:00:00Z''" sample_clock 1710151200000 "''cancelado''"] fut
    by blast
  have b: "getStatusText sample_clock ''a_cobrar'' (Some ''2024-03-11T10:00:00Z'') = ''Agendado''"
    using getStatusText_future
      [of "''2024-03-11T10:00:00Z''" sample_clock 1710151200000 "''a_cobrar''"] fut
    by blast
  have "getStatusText sample_clock ''cancelado'' (Some ''2024-03-09T10:00:00Z'') =
        (if ''cancelado'' = ''agendado'' \<or> ''cancelado'' = ''pago'' then ''Agendado''
         else if ''cancelado'' = ''a_cobrar'' then ''Pendente''
         else if ''cancelado'' = ''cancelado'' then ''Cancelado''
         else ''cancelado'')"
    using getStatusText_future
      [of "''2024-03-09T10:00:00Z''" sample_clock 1709978400000 "''cancelado''"] pst
    by blast
  then have c: "getStatusText sample_clock ''cancelado'' (Some ''2024-03-09T10:00:00Z'') = ''Cancelado''"
    by simp
  from a b c show ?thesis by blast
qed

section \<open>Properties of creating an appointment\<close>

text \<open>What the amount expression gives where the custom value is a number or null.\<close>

lemma valor_total_of_cases:
  "valor_total_of True cv v = Some 0"
  "valor_total_of False (Num x) v = Some x"
  "valor_total_of False Null v = Some v"
  by (simp_all add: valor_total_of_def)

lemma createAppointment_valor:
  assumes "createAppointment_mutationFn user_id fault new_id d rem = (Inr row, rem')"
  shows "\<exists>m \<in> set (rem_modalities rem).
           mod_id m = cad_modality_id d \<and> mod_user_id m = account_id user_id \<and>
           apt_valor_total row =
             valor_total_of (cad_is_cortesia d) (cad_customValue d) (mod_valor m)"
proof -
  let ?ms = "filter (\<lambda>m. mod_id m = cad_modality_id d \<and> mod_user_id m = account_id user_id)
               (rem_modalities rem)"
  from assms obtain m where m: "single ?ms = Some m"
    and v: "apt_valor_total row =
              valor_total_of (cad_is_cortesia d) (cad_customValue d) (mod_valor m)"
    by (auto simp: createAppointment_mutationFn_def Let_def split: if_splits option.splits)
  from m have "?ms = [m]" by (auto simp: single_def split: list.splits)
  then have "m \<in> set ?ms" by simp
  then have "m \<in> set (rem_modalities rem) \<and> mod_id m = cad_modality_id d
               \<and> mod_user_id m = account_id user_id"
    by simp
  with v show ?thesis by blast
qed

text \<open>
  C2, at the input where the code departs from it. The call leaves \<^verbatim>\<open>customValue\<close>
  out (the field is optional), the appointment is not complimentary, and the modality
  m1 of the account costs 120: the inserted row carries no amount, not 120, because
  \<^verbatim>\<open>customValue !== null\<close> is true for \<^verbatim>\<open>undefined\<close>.
\<close>

theorem createAppointment_customValue_undefined:
  "map_sum id apt_valor_total
     (fst (createAppointment_mutationFn (Some ''u1'') no_faults ''a9''
        \<lparr>cad_client_id = ''c1'', cad_date = ''2024-04-01T10:00:00'', cad_modality_id = ''m1'',
         cad_status = None, cad_recurrence_id = None, cad_booking_source = None,
         cad_is_cortesia = False, cad_customValue = Undefined\<rparr> sample_remote)) = Inr None
   \<and> mod_valor sample_modality = 120"
  by (simp add: createAppointment_mutationFn_def truthy_def account_id_def no_faults_def
      sample_remote_def sample_modality_def single_def record_call_def valor_total_of_def
      Let_def)

section \<open>Properties of booking through the portal\<close>

text \<open>
  C6 as stated fails on "state unchanged on error": a request without a client id, from
  a person the account does not know yet, for a slot that is taken, fails with the
  slot-occupied error after the client row was created, and the row stays.
\<close>

theorem createBooking_leaves_client_behind:
  "(\<exists>a \<in> set (rem_appointments sample_remote).
      apt_user_id a = cb_user_id sample_booking \<and> apt_date a = cb_date sample_booking
      \<and> apt_status a \<noteq> ''cancelado'')
   \<and> fst (createBooking_mutationFn no_faults ''c2'' ''a2'' sample_booking sample_remote)
       = Inl SlotOccupied
   \<and> rem_clients (snd (createBooking_mutationFn no_faults ''c2'' ''a2'' sample_booking sample_remote))
       = rem_clients sample_remote @
         [\<lparr>cli_id = ''c2'', cli_user_id = ''u1'', cli_name = ''Bia'',
           cli_email = ''bia@example.com'', cli_phone = None\<rparr>]"
  by (simp add: createBooking_mutationFn_def resolve_client_def sample_booking_def
        sample_remote_def sample_apt_def sample_client_def no_faults_def truthy_def
        toLowerCase_def trim_def is_ws_def lower_char_def upper_letters_def lower_letters_def single_def record_call_def
        occupying_def Let_def)

lemma resolve_client_appointments:
  "rem_appointments (snd (resolve_client fault ncid d rem)) = rem_appointments rem"
  by (simp add: resolve_client_def record_call_def Let_def split: option.splits)

lemma occupying_iff:
  "occupying d apts \<noteq> [] \<longleftrightarrow>
     (\<exists>a \<in> set apts. apt_user_id a = cb_user_id d \<and> apt_date a = cb_date d
        \<and> apt_status a \<noteq> ''cancelado'')"
  by (auto simp: occupying_def filter_empty_conv)

lemma createBooking_occupied_fails:
  assumes "occupying d (rem_appointments rem) \<noteq> []"
  shows "isl (fst (createBooking_mutationFn fault ncid nid d rem))
       \<and> rem_appointments (snd (createBooking_mutationFn fault ncid nid d rem)) =
           rem_appointments rem"
proof (cases "resolve_client fault ncid d rem")
  case (Pair r rem1)
  have ap: "rem_appointments rem1 = rem_appointments rem"
    using resolve_client_appointments[of fault ncid d rem] Pair by simp
  show ?thesis
    using assms ap Pair
    by (cases r) (simp_all add: createBooking_mutationFn_def record_call_def Let_def)
qed

lemma createBooking_reaches_check:
  assumes "resolve_client fault ncid d rem = (Inr (Some cid), rem1)" and "cid \<noteq> []"
    and "fault (SelectSlot (cb_user_id d) (cb_date d)) = None"
  shows "createBooking_mutationFn fault ncid nid d rem =
     (if occupying d (rem_appointments rem) \<noteq> [] then
        (Inl SlotOccupied, record_call (SelectSlot (cb_user_id d) (cb_date d)) rem1)
      else
        (case fault (InsertAppointment (booking_payload d (Some cid))) of
           Some e \<Rightarrow>
             (Inl (RemoteError e),
              record_call (InsertAppointment (booking_payload d (Some cid)))
                (record_call (SelectSlot (cb_user_id d) (cb_date d)) rem1))
         | None \<Rightarrow>
             (Inr ((booking_payload d (Some cid))\<lparr>apt_id := nid\<rparr>),
              (record_call (InsertAppointment (booking_payload d (Some cid)))
                (record_call (SelectSlot (cb_user_id d) (cb_date d)) rem1))
              \<lparr>rem_appointments := rem_appointments rem @
                  [(booking_payload d (Some cid))\<lparr>apt_id := nid\<rparr>]\<rparr>)))"
proof -
  have ap: "rem_appointments rem1 = rem_appointments rem"
    using resolve_client_appointments[of fault ncid d rem] assms(1) by simp
  show ?thesis
    using assms ap
    by (simp add: createBooking_mutationFn_def truthy_def record_call_def Let_def
          split: option.splits)
qed

text \<open>
  C6, amended. Whenever an appointment of the account holds exactly the requested
  date-time with a status other than cancelado, the call fails and the appointments
  collection is left as it was. When the call gets as far as the slot check (a
  non-empty client id was given or resolved, and the availability request itself
  succeeded): with such an appointment the error is the slot-occupied one and no insert
  is sent; without one the insert of the new row is sent right after the check, and
  when the store accepts it the row is appended and returned.
\<close>

theorem createBooking_slot_check:
  "((\<exists>a \<in> set (rem_appointments rem).
        apt_user_id a = cb_user_id d \<and> apt_date a = cb_date d \<and> apt_status a \<noteq> ''cancelado'')
      \<longrightarrow> isl (fst (createBooking_mutationFn fault ncid nid d rem))
          \<and> rem_appointments (snd (createBooking_mutationFn fault ncid nid d rem)) =
              rem_appointments rem)
   \<and> (resolve_client fault ncid d rem = (Inr (Some cid), rem1) \<and> cid \<noteq> []
        \<and> fault (SelectSlot (cb_user_id d) (cb_date d)) = None \<longrightarrow>
        ((\<exists>a \<in> set (rem_appointments rem).
            apt_user_id a = cb_user_id d \<and> apt_date a = cb_date d
            \<and> apt_status a \<noteq> ''cancelado'') \<longrightarrow>
           fst (createBooking_mutationFn fault ncid nid d rem) = Inl SlotOccupied
           \<and> rem_calls (snd (createBooking_mutationFn fault ncid nid d rem)) =
               rem_calls rem1 @ [SelectSlot (cb_user_id d) (cb_date d)])
        \<and> (\<not> (\<exists>a \<in> set (rem_appointments rem).
            apt_user_id a = cb_user_id d \<and> apt_date a = cb_date d
            \<and> apt_status a \<noteq> ''cancelado'') \<longrightarrow>
           rem_calls (snd (createBooking_mutationFn fault ncid nid d rem)) =
               rem_calls rem1 @ [SelectSlot (cb_user_id d) (cb_date d),
                                 InsertAppointment (booking_payload d (Some cid))]
           \<and> (fault (InsertAppointment (booking_payload d (Some cid))) = None \<longrightarrow>
                fst (createBooking_mutationFn fault ncid nid d rem) =
                  Inr ((booking_payload d (Some cid))\<lparr>apt_id := nid\<rparr>)
                \<and> rem_appointments (snd (createBooking_mutationFn fault ncid nid d rem)) =
                    rem_appointments rem @ [(booking_payload d (Some cid))\<lparr>apt_id := nid\<rparr>])))"
proof (intro conjI impI)
  assume "\<exists>a \<in> set (rem_appointments rem).
        apt_user_id a = cb_user_id d \<and> apt_date a = cb_date d \<and> apt_status a \<noteq> ''cancelado''"
  then have occ: "occupying d (rem_appointments rem) \<noteq> []" by (simp add: occupying_iff)
  from createBooking_occupied_fails[OF occ]
  show "isl (fst (createBooking_mutationFn fault ncid nid d rem))"
    and "rem_appointments (snd (createBooking_mutationFn fault ncid nid d rem)) =
              rem_appointments rem"
    by blast+
next
  assume r: "resolve_client fault ncid d rem = (Inr (Some cid), rem1) \<and> cid \<noteq> []
        \<and> fault (SelectSlot (cb_user_id d) (cb_date d)) = None"
    and "\<exists>a \<in> set (rem_appointments rem).
            apt_user_id a = cb_user_id d \<and> apt_date a = cb_date d
            \<and> apt_status a \<noteq> ''cancelado''"
  then have occ: "occupying d (rem_appointments rem) \<noteq> []" by (simp add: occupying_iff)
  from r have eq: "createBooking_mutationFn fault ncid nid d rem =
       (Inl SlotOccupied, record_call (SelectSlot (cb_user_id d) (cb_date d)) rem1)"
    using createBooking_reaches_check[of fault ncid d rem cid rem1 nid] occ by simp
  show "fst (createBooking_mutationFn fault ncid nid d rem) = Inl SlotOccupied"
    by (simp add: eq)
  show "rem_calls (snd (createBooking_mutationFn fault ncid nid d rem)) =
               rem_calls rem1 @ [SelectSlot (cb_user_id d) (cb_date d)]"
    by (simp add: eq record_call_def)
next
  assume r: "resolve_client fault ncid d rem = (Inr (Some cid), rem1) \<and> cid \<noteq> []
        \<and> fault (SelectSlot (cb_user_id d) (cb_date d)) = None"
    and n: "\<not> (\<exists>a \<in> set (rem_appointments rem).
            apt_user_id a = cb_user_id d \<and> apt_date a = cb_date d
            \<and> apt_status a \<noteq> ''cancelado'')"
  then have free: "occupying d (rem_appointments rem) = []" using occupying_iff by blast
  note eq = createBooking_reaches_check[of fault ncid d rem cid rem1 nid]
  show "rem_calls (snd (createBooking_mutationFn fault ncid nid d rem)) =
               rem_calls rem1 @ [SelectSlot (cb_user_id d) (cb_date d),
                                 InsertAppointment (booking_payload d (Some cid))]"
    using r free eq by (simp add: record_call_def split: option.splits)
  {
    assume ok: "fault (InsertAppointment (booking_payload d (Some cid))) = None"
    show "fst (createBooking_mutationFn fault ncid nid d rem) =
                  Inr ((booking_payload d (Some cid))\<lparr>apt_id := nid\<rparr>)"
      using r free eq ok by simp
    show "rem_appointments (snd (createBooking_mutationFn fault ncid nid d rem)) =
                    rem_appointments rem @ [(booking_payload d (Some cid))\<lparr>apt_id := nid\<rparr>]"
      using r free eq ok by simp
  }
qed

theorem createBooking_slot_check_witness:
  "fst (createBooking_mutationFn no_faults ''c2'' ''a2''
          (known_booking ''2024-03-10T15:00:00'') sample_remote) = Inl SlotOccupied
   \<and> rem_appointments (snd (createBooking_mutationFn no_faults ''c2'' ''a2''
          (known_booking ''2024-03-10T15:00:00'') sample_remote)) = rem_appointments sample_remote
   \<and> fst (createBooking_mutationFn no_faults ''c2'' ''a2''
          (known_booking ''2024-03-12T09:00:00'') sample_remote) =
       Inr ((booking_payload (known_booking ''2024-03-12T09:00:00'') (Some ''c1''))\<lparr>apt_id := ''a2''\<rparr>)
   \<and> rem_appointments (snd (createBooking_mutationFn no_faults ''c2'' ''a2''
          (known_booking ''2024-03-12T09:00:00'') sample_remote)) =
       rem_appointments sample_remote @
         [(booking_payload (known_booking ''2024-03-12T09:00:00'') (Some ''c1''))\<lparr>apt_id := ''a2''\<rparr>]"
proof -
  let ?busy = "known_booking ''2024-03-10T15:00:00''"
  let ?free = "known_booking ''2024-03-12T09:00:00''"
  have occ: "\<exists>a \<in> set (rem_appointments sample_remote).
        apt_user_id a = cb_user_id ?busy \<and> apt_date a = cb_date ?busy
        \<and> apt_status a \<noteq> ''cancelado''"
    by (simp add: sample_remote_def sample_apt_def known_booking_def)
  have nocc: "\<not> (\<exists>a \<in> set (rem_appointments sample_remote).
        apt_user_id a = cb_user_id ?free \<and> apt_date a = cb_date ?free
        \<and> apt_status a \<noteq> ''cancelado'')"
    by (simp add: sample_remote_def sample_apt_def known_booking_def)
  have rb: "resolve_client no_faults ''c2'' ?busy sample_remote = (Inr (Some ''c1''), sample_remote)
            \<and> ''c1'' \<noteq> [] \<and> no_faults (SelectSlot (cb_user_id ?busy) (cb_date ?busy)) = None"
    by (simp add: resolve_client_def known_booking_def no_faults_def)
  have rf: "resolve_client no_faults ''c2'' ?free sample_remote = (Inr (Some ''c1''), sample_remote)
            \<and> ''c1'' \<noteq> [] \<and> no_faults (SelectSlot (cb_user_id ?free) (cb_date ?free)) = None"
    by (simp add: resolve_client_def known_booking_def no_faults_def)
  have ok: "no_faults (InsertAppointment (booking_payload ?free (Some ''c1''))) = None"
    by (simp add: no_faults_def)
  note busy = createBooking_slot_check
    [where rem=sample_remote and d="?busy" and fault=no_faults and ncid="''c2''"
       and nid="''a2''" and cid="''c1''" and ?rem1.0=sample_remote]
  note free = createBooking_slot_check
    [where rem=sample_remote and d="?free" and fault=no_faults and ncid="''c2''"
       and nid="''a2''" and cid="''c1''" and ?rem1.0=sample_remote]
  have a: "fst (createBooking_mutationFn no_faults ''c2'' ''a2'' ?busy sample_remote)
             = Inl SlotOccupied"
    using busy occ rb by blast
  have b: "rem_appointments (snd (createBooking_mutationFn no_faults ''c2'' ''a2'' ?busy
             sample_remote)) = rem_appointments sample_remote"
    using busy occ by blast
  have c: "fst (createBooking_mutationFn no_faults ''c2'' ''a2'' ?free sample_remote) =
       Inr ((booking_payload ?free (Some ''c1''))\<lparr>apt_id := ''a2''\<rparr>)"
    using free nocc rf ok by blast
  have d: "rem_appointments (snd (createBooking_mutationFn no_faults ''c2'' ''a2'' ?free
             sample_remote)) =
       rem_appointments sample_remote @ [(booking_payload ?free (Some ''c1''))\<lparr>apt_id := ''a2''\<rparr>]"
    using free nocc rf ok by blast
  from a b c d show ?thesis by blast
qed

section \<open>Properties of the related-entity cache\<close>

lemma has_cache_entry: "has m k \<longleftrightarrow> cache_entry m k \<noteq> None"
  by (simp add: has_def cache_entry_def split: option.splits)

lemma foldl_set_other:
  "k \<notin> key ` set rows \<Longrightarrow> foldl (\<lambda>acc r. acc(key r \<mapsto> r)) m rows k = m k"
  by (induction rows arbitrary: m) auto

lemma foldl_set_keeps:
  "m k \<noteq> None \<Longrightarrow> foldl (\<lambda>acc r. acc(key r \<mapsto> r)) m rows k \<noteq> None"
  by (induction rows arbitrary: m) auto

lemma foldl_set_hit:
  "k \<in> key ` set rows \<Longrightarrow> foldl (\<lambda>acc r. acc(key r \<mapsto> r)) m rows k \<noteq> None"
proof (induction rows arbitrary: m)
  case Nil
  then show ?case by simp
next
  case (Cons r rows)
  have step: "foldl (\<lambda>acc r. acc(key r \<mapsto> r)) (m(key r \<mapsto> r)) rows k \<noteq> None"
  proof (cases "k \<in> key ` set rows")
    case True
    then show ?thesis by (rule Cons.IH)
  next
    case False
    with Cons.prems have "k = key r" by auto
    then have "(m(key r \<mapsto> r)) k \<noteq> None" by simp
    then show ?thesis by (rule foldl_set_keeps)
  qed
  show ?case unfolding foldl_Cons by (rule step)
qed

lemma set_all_keeps: "m k \<noteq> None \<Longrightarrow> set_all key m d k \<noteq> None"
  by (cases d) (simp_all add: set_all_def foldl_set_keeps)

lemma set_all_other:
  "(\<And>rows. d = Some rows \<Longrightarrow> k \<notin> key ` set rows) \<Longrightarrow> set_all key m d k = m k"
  by (cases d) (simp_all add: set_all_def foldl_set_other)

lemma set_all_nothing: "d = None \<or> d = Some [] \<Longrightarrow> set_all key m d = m"
  by (auto simp: set_all_def)

lemma distinct_uniq: "distinct (uniq xs)"
  by (simp add: uniq_def)

lemma select_clients_in_tables:
  "rem_clients (snd (select_clients_in fault ids uid rem)) = rem_clients rem"
  "rem_modalities (snd (select_clients_in fault ids uid rem)) = rem_modalities rem"
  "rem_appointments (snd (select_clients_in fault ids uid rem)) = rem_appointments rem"
  by (simp_all add: select_clients_in_def record_call_def split: option.splits)

lemma select_modalities_in_tables:
  "rem_clients (snd (select_modalities_in fault ids uid rem)) = rem_clients rem"
  "rem_modalities (snd (select_modalities_in fault ids uid rem)) = rem_modalities rem"
  "rem_appointments (snd (select_modalities_in fault ids uid rem)) = rem_appointments rem"
  by (simp_all add: select_modalities_in_def record_call_def split: option.splits)

lemma select_clients_in_calls:
  "rem_calls (snd (select_clients_in fault ids uid rem)) =
     rem_calls rem @ (if ids = [] then [] else [SelectClientsIn ids uid])"
  by (simp add: select_clients_in_def record_call_def split: option.splits)

lemma select_modalities_in_calls:
  "rem_calls (snd (select_modalities_in fault ids uid rem)) =
     rem_calls rem @ (if ids = [] then [] else [SelectModalitiesIn ids uid])"
  by (simp add: select_modalities_in_def record_call_def split: option.splits)

lemma select_clients_in_keys:
  assumes "resp_data (fst (select_clients_in fault ids uid rem)) = Some rows"
  shows "ci_id ` set rows \<subseteq> set ids"
  using assms
  by (auto simp: select_clients_in_def as_client_info_def split: if_splits option.splits)

lemma select_clients_in_finds:
  assumes "resp_data (fst (select_clients_in fault ids uid rem)) = Some rows"
    and "c \<in> set (rem_clients rem)" and "cli_id c \<in> set ids" and "cli_user_id c = uid"
  shows "cli_id c \<in> ci_id ` set rows"
proof -
  from assms(1) have "rows = map as_client_info
      (filter (\<lambda>c. cli_id c \<in> set ids \<and> cli_user_id c = uid) (rem_clients rem))"
    by (auto simp: select_clients_in_def split: if_splits option.splits)
  then have "as_client_info c \<in> set rows" using assms(2-4) by simp
  then have "ci_id (as_client_info c) \<in> ci_id ` set rows" by (rule imageI)
  then show ?thesis by (simp add: as_client_info_def)
qed

lemma select_clients_in_data:
  "resp_data (fst (select_clients_in fault ids uid rem)) =
     (if ids = [] \<or> fault (SelectClientsIn ids uid) \<noteq> None then None
      else Some (map as_client_info
             (filter (\<lambda>c. cli_id c \<in> set ids \<and> cli_user_id c = uid) (rem_clients rem))))"
  by (auto simp: select_clients_in_def split: option.splits)

lemma select_modalities_in_keys:
  assumes "resp_data (fst (select_modalities_in fault ids uid rem)) = Some rows"
  shows "mi_id ` set rows \<subseteq> set ids"
  using assms
  by (auto simp: select_modalities_in_def as_modality_info_def split: if_splits option.splits)

lemma select_modalities_in_finds:
  assumes "resp_data (fst (select_modalities_in fault ids uid rem)) = Some rows"
    and "c \<in> set (rem_modalities rem)" and "mod_id c \<in> set ids" and "mod_user_id c = uid"
  shows "mod_id c \<in> mi_id ` set rows"
proof -
  from assms(1) have "rows = map as_modality_info
      (filter (\<lambda>c. mod_id c \<in> set ids \<and> mod_user_id c = uid) (rem_modalities rem))"
    by (auto simp: select_modalities_in_def split: if_splits option.splits)
  then have "as_modality_info c \<in> set rows" using assms(2-4) by simp
  then have "mi_id (as_modality_info c) \<in> mi_id ` set rows" by (rule imageI)
  then show ?thesis by (simp add: as_modality_info_def)
qed

lemma select_modalities_in_data:
  "resp_data (fst (select_modalities_in fault ids uid rem)) =
     (if ids = [] \<or> fault (SelectModalitiesIn ids uid) \<noteq> None then None
      else Some (map as_modality_info
             (filter (\<lambda>c. mod_id c \<in> set ids \<and> mod_user_id c = uid) (rem_modalities rem))))"
  by (auto simp: select_modalities_in_def split: option.splits)

text \<open>
  A second resolution of one kind fetches nothing new: an id still missing after the
  first one is not in the store, or the first request failed and the second, being the
  same request, fails again.
\<close>

lemma clients_second_round:
  assumes r1: "r1 = set_all ci_id base
                 (resp_data (fst (select_clients_in fault (filter (\<lambda>i. base i = None) U) uid rem)))"
    and tbl: "rem_clients rem' = rem_clients rem"
  shows "set_all ci_id r1
           (resp_data (fst (select_clients_in fault (filter (\<lambda>i. r1 i = None) U) uid rem'))) = r1"
proof -
  let ?M1 = "filter (\<lambda>i. base i = None) U"
  let ?M2 = "filter (\<lambda>i. r1 i = None) U"
  let ?d2 = "resp_data (fst (select_clients_in fault ?M2 uid rem'))"
  have "?d2 = None \<or> ?d2 = Some []"
  proof (cases "?M2 = [] \<or> fault (SelectClientsIn ?M2 uid) \<noteq> None")
    case True
    then show ?thesis by (simp add: select_clients_in_data)
  next
    case False
    then have ok2: "fault (SelectClientsIn ?M2 uid) = None" by simp
    have "filter (\<lambda>c. cli_id c \<in> set ?M2 \<and> cli_user_id c = uid) (rem_clients rem') = []"
    proof (rule ccontr)
      assume "filter (\<lambda>c. cli_id c \<in> set ?M2 \<and> cli_user_id c = uid) (rem_clients rem') \<noteq> []"
      then obtain c where c: "c \<in> set (rem_clients rem)" "cli_id c \<in> set ?M2"
          "cli_user_id c = uid"
        using tbl by (auto simp: filter_empty_conv)
      then have none: "r1 (cli_id c) = None" and inU: "cli_id c \<in> set U" by auto
      have b: "base (cli_id c) = None"
        using none set_all_keeps[of base "cli_id c" ci_id] r1 by blast
      then have inM1: "cli_id c \<in> set ?M1" using inU by simp
      show False
      proof (cases "fault (SelectClientsIn ?M1 uid)")
        case None
        moreover have "?M1 \<noteq> []" using inM1 by (metis empty_iff empty_set)
        ultimately obtain rows where rows:
          "resp_data (fst (select_clients_in fault ?M1 uid rem)) = Some rows"
          by (simp add: select_clients_in_data)
        from select_clients_in_finds[OF rows c(1) inM1 c(3)]
        have "cli_id c \<in> ci_id ` set rows" .
        then have "r1 (cli_id c) \<noteq> None"
          unfolding r1 rows by (simp add: set_all_def foldl_set_hit)
        with none show False by simp
      next
        case (Some e)
        then have "resp_data (fst (select_clients_in fault ?M1 uid rem)) = None"
          by (simp add: select_clients_in_data)
        then have "r1 = base" using r1 by (simp add: set_all_def)
        then have "?M2 = ?M1" by simp
        with Some ok2 show False by simp
      qed
    qed
    then show ?thesis using False by (simp add: select_clients_in_data)
  qed
  then show ?thesis by (rule set_all_nothing)
qed


lemma modalities_second_round:
  assumes r1: "r1 = set_all mi_id base
                 (resp_data (fst (select_modalities_in fault (filter (\<lambda>i. base i = None) U) uid rem)))"
    and tbl: "rem_modalities rem' = rem_modalities rem"
  shows "set_all mi_id r1
           (resp_data (fst (select_modalities_in fault (filter (\<lambda>i. r1 i = None) U) uid rem'))) = r1"
proof -
  let ?M1 = "filter (\<lambda>i. base i = None) U"
  let ?M2 = "filter (\<lambda>i. r1 i = None) U"
  let ?d2 = "resp_data (fst (select_modalities_in fault ?M2 uid rem'))"
  have "?d2 = None \<or> ?d2 = Some []"
  proof (cases "?M2 = [] \<or> fault (SelectModalitiesIn ?M2 uid) \<noteq> None")
    case True
    then show ?thesis by (simp add: select_modalities_in_data)
  next
    case False
    then have ok2: "fault (SelectModalitiesIn ?M2 uid) = None" by simp
    have "filter (\<lambda>c. mod_id c \<in> set ?M2 \<and> mod_user_id c = uid) (rem_modalities rem') = []"
    proof (rule ccontr)
      assume "filter (\<lambda>c. mod_id c \<in> set ?M2 \<and> mod_user_id c = uid) (rem_modalities rem') \<noteq> []"
      then obtain c where c: "c \<in> set (rem_modalities rem)" "mod_id c \<in> set ?M2"
          "mod_user_id c = uid"
        using tbl by (auto simp: filter_empty_conv)
      then have none: "r1 (mod_id c) = None" and inU: "mod_id c \<in> set U" by auto
      have b: "base (mod_id c) = None"
        using none set_all_keeps[of base "mod_id c" mi_id] r1 by blast
      then have inM1: "mod_id c \<in> set ?M1" using inU by simp
      show False
      proof (cases "fault (SelectModalitiesIn ?M1 uid)")
        case None
        moreover have "?M1 \<noteq> []" using inM1 by (metis empty_iff empty_set)
        ultimately obtain rows where rows:
          "resp_data (fst (select_modalities_in fault ?M1 uid rem)) = Some rows"
          by (simp add: select_modalities_in_data)
        from select_modalities_in_finds[OF rows c(1) inM1 c(3)]
        have "mod_id c \<in> mi_id ` set rows" .
        then have "r1 (mod_id c) \<noteq> None"
          unfolding r1 rows by (simp add: set_all_def foldl_set_hit)
        with none show False by simp
      next
        case (Some e)
        then have "resp_data (fst (select_modalities_in fault ?M1 uid rem)) = None"
          by (simp add: select_modalities_in_data)
        then have "r1 = base" using r1 by (simp add: set_all_def)
        then have "?M2 = ?M1" by simp
        with Some ok2 show False by simp
      qed
    qed
    then show ?thesis using False by (simp add: select_modalities_in_data)
  qed
  then show ?thesis by (rule set_all_nothing)
qed


lemma fetchRelatedData_nonempty:
  assumes "apts \<noteq> []"
  shows "fetchRelatedData user_id fault apts cs rem =
    ((set_all ci_id (cache_entry (clientsCache cs (account_id user_id)))
        (resp_data (fst (select_clients_in fault
           (filter (\<lambda>i. cache_entry (clientsCache cs (account_id user_id)) i = None)
              (uniq (truthy_values (map apt_client_id apts))))
           (account_id user_id) rem))),
      set_all mi_id (cache_entry (modalitiesCache cs (account_id user_id)))
        (resp_data (fst (select_modalities_in fault
           (filter (\<lambda>i. cache_entry (modalitiesCache cs (account_id user_id)) i = None)
              (uniq (truthy_values (map apt_modality_id apts))))
           (account_id user_id)
           (snd (select_clients_in fault
             (filter (\<lambda>i. cache_entry (clientsCache cs (account_id user_id)) i = None)
                (uniq (truthy_values (map apt_client_id apts))))
             (account_id user_id) rem)))))),
     cs\<lparr>clientsCache := (clientsCache cs)(account_id user_id \<mapsto>
          set_all ci_id (cache_entry (clientsCache cs (account_id user_id)))
            (resp_data (fst (select_clients_in fault
               (filter (\<lambda>i. cache_entry (clientsCache cs (account_id user_id)) i = None)
                  (uniq (truthy_values (map apt_client_id apts))))
               (account_id user_id) rem)))),
        modalitiesCache := (modalitiesCache cs)(account_id user_id \<mapsto>
          set_all mi_id (cache_entry (modalitiesCache cs (account_id user_id)))
            (resp_data (fst (select_modalities_in fault
               (filter (\<lambda>i. cache_entry (modalitiesCache cs (account_id user_id)) i = None)
                  (uniq (truthy_values (map apt_modality_id apts))))
               (account_id user_id)
               (snd (select_clients_in fault
                 (filter (\<lambda>i. cache_entry (clientsCache cs (account_id user_id)) i = None)
                    (uniq (truthy_values (map apt_client_id apts))))
                 (account_id user_id) rem))))))\<rparr>,
     snd (select_modalities_in fault
           (filter (\<lambda>i. cache_entry (modalitiesCache cs (account_id user_id)) i = None)
              (uniq (truthy_values (map apt_modality_id apts))))
           (account_id user_id)
           (snd (select_clients_in fault
             (filter (\<lambda>i. cache_entry (clientsCache cs (account_id user_id)) i = None)
                (uniq (truthy_values (map apt_client_id apts))))
             (account_id user_id) rem))))"
  using assms
  by (simp add: fetchRelatedData_def Let_def split_def has_cache_entry cache_entry_def)

lemma issued_append: "rem_calls after = rem_calls before @ new \<Longrightarrow> issued before after = new"
  by (simp add: issued_def)

lemma second_round_requests:
  assumes "apts \<noteq> []"
    and "fetchRelatedData user_id fault apts cs rem = (r, cs', rem')"
  shows "issued rem rem' =
           (if filter (\<lambda>i. \<not> has (clientsCache cs (account_id user_id)) i)
                 (uniq (truthy_values (map apt_client_id apts))) = [] then []
            else [SelectClientsIn
                    (filter (\<lambda>i. \<not> has (clientsCache cs (account_id user_id)) i)
                       (uniq (truthy_values (map apt_client_id apts))))
                    (account_id user_id)]) @
           (if filter (\<lambda>i. \<not> has (modalitiesCache cs (account_id user_id)) i)
                 (uniq (truthy_values (map apt_modality_id apts))) = [] then []
            else [SelectModalitiesIn
                    (filter (\<lambda>i. \<not> has (modalitiesCache cs (account_id user_id)) i)
                       (uniq (truthy_values (map apt_modality_id apts))))
                    (account_id user_id)])"
proof -
  from assms have "rem' = snd (select_modalities_in fault
           (filter (\<lambda>i. cache_entry (modalitiesCache cs (account_id user_id)) i = None)
              (uniq (truthy_values (map apt_modality_id apts))))
           (account_id user_id)
           (snd (select_clients_in fault
             (filter (\<lambda>i. cache_entry (clientsCache cs (account_id user_id)) i = None)
                (uniq (truthy_values (map apt_client_id apts))))
             (account_id user_id) rem)))"
    by (simp add: fetchRelatedData_nonempty)
  then show ?thesis
    by (intro issued_append)
       (simp add: select_modalities_in_calls select_clients_in_calls has_cache_entry)
qed

text \<open>
  C7. Resolving the ids of the same appointments twice, the second time on the caches
  and the store the first left: with the store answering as before, the second
  resolution returns the same two maps and leaves the caches as they are; whatever the
  store answers, every record the first resolution returned is returned unchanged by
  the second; the second issues requests only for ids that are not in the cache after
  the first; and every request of either resolution lists each id once.
\<close>

theorem fetchRelatedData_idempotent:
  assumes first: "fetchRelatedData user_id fault apts cs rem = (r1, cs1, rem1)"
    and second: "fetchRelatedData user_id fault2 apts cs1 rem1 = (r2, cs2, rem2)"
  shows "(fault2 = fault \<longrightarrow> r2 = r1 \<and> cs2 = cs1)
     \<and> (\<forall>i. fst r1 i \<noteq> None \<longrightarrow> fst r2 i = fst r1 i)
     \<and> (\<forall>i. snd r1 i \<noteq> None \<longrightarrow> snd r2 i = snd r1 i)
     \<and> (\<forall>ids a. SelectClientsIn ids a \<in> set (issued rem1 rem2) \<longrightarrow>
           distinct ids \<and> (\<forall>i \<in> set ids. \<not> has (clientsCache cs1 (account_id user_id)) i))
     \<and> (\<forall>ids a. SelectModalitiesIn ids a \<in> set (issued rem1 rem2) \<longrightarrow>
           distinct ids \<and> (\<forall>i \<in> set ids. \<not> has (modalitiesCache cs1 (account_id user_id)) i))
     \<and> (\<forall>c \<in> set (issued rem rem1). distinct (requested_ids c))"
proof (cases "apts = []")
  case True
  with first second have "r1 = (Map.empty, Map.empty)" "r2 = (Map.empty, Map.empty)"
      "cs1 = cs" "cs2 = cs1" "rem1 = rem" "rem2 = rem1"
    by (auto simp: fetchRelatedData_def)
  then show ?thesis by (simp add: issued_def)
next
  case False
  define uid where "uid = account_id user_id"
  define Uc where "Uc = uniq (truthy_values (map apt_client_id apts))"
  define Um where "Um = uniq (truthy_values (map apt_modality_id apts))"
  define bc where "bc = cache_entry (clientsCache cs uid)"
  define bm where "bm = cache_entry (modalitiesCache cs uid)"
  define sc1 where "sc1 = select_clients_in fault (filter (\<lambda>i. bc i = None) Uc) uid rem"
  define sm1 where "sm1 = select_modalities_in fault (filter (\<lambda>i. bm i = None) Um) uid (snd sc1)"
  define r1c where "r1c = set_all ci_id bc (resp_data (fst sc1))"
  define r1m where "r1m = set_all mi_id bm (resp_data (fst sm1))"
  have f1: "r1 = (r1c, r1m)"
      "cs1 = cs\<lparr>clientsCache := (clientsCache cs)(uid \<mapsto> r1c),
                modalitiesCache := (modalitiesCache cs)(uid \<mapsto> r1m)\<rparr>"
      "rem1 = snd sm1"
    using first False
    unfolding fetchRelatedData_nonempty[OF False] uid_def Uc_def Um_def bc_def bm_def sc1_def
      sm1_def r1c_def r1m_def
    by simp_all
  have ce: "cache_entry (clientsCache cs1 uid) = r1c" "cache_entry (modalitiesCache cs1 uid) = r1m"
    by (simp_all add: f1(2) cache_entry_def)
  have hs: "\<And>i. has (clientsCache cs1 uid) i \<longleftrightarrow> r1c i \<noteq> None"
      "\<And>i. has (modalitiesCache cs1 uid) i \<longleftrightarrow> r1m i \<noteq> None"
    by (simp_all add: has_cache_entry ce)
  define sc2 where "sc2 = select_clients_in fault2 (filter (\<lambda>i. r1c i = None) Uc) uid rem1"
  define sm2 where "sm2 = select_modalities_in fault2 (filter (\<lambda>i. r1m i = None) Um) uid (snd sc2)"
  define r2c where "r2c = set_all ci_id r1c (resp_data (fst sc2))"
  define r2m where "r2m = set_all mi_id r1m (resp_data (fst sm2))"
  have f2: "r2 = (r2c, r2m)"
      "cs2 = cs1\<lparr>clientsCache := (clientsCache cs1)(uid \<mapsto> r2c),
                 modalitiesCache := (modalitiesCache cs1)(uid \<mapsto> r2m)\<rparr>"
      "rem2 = snd sm2"
    using second False
    unfolding fetchRelatedData_nonempty[OF False] uid_def[symmetric] Uc_def[symmetric]
      Um_def[symmetric] ce sc2_def sm2_def r2c_def r2m_def
    by simp_all
  have tc: "rem_clients rem1 = rem_clients rem"
    by (simp add: f1(3) sm1_def sc1_def select_modalities_in_tables select_clients_in_tables)
  have tm: "rem_modalities (snd sc2) = rem_modalities (snd sc1)"
    by (simp add: sc2_def sc1_def f1(3) sm1_def select_modalities_in_tables
          select_clients_in_tables)
  have same: "fault2 = fault \<longrightarrow> r2 = r1 \<and> cs2 = cs1"
  proof
    assume eq: "fault2 = fault"
    have c: "r2c = r1c"
      unfolding r2c_def sc2_def eq
      by (rule clients_second_round[OF _ tc]) (simp add: r1c_def sc1_def)
    have m: "r2m = r1m"
      unfolding r2m_def sm2_def eq
      by (rule modalities_second_round[OF _ tm[unfolded eq]]) (simp add: r1m_def sm1_def)
    have "cs2 = cs1" unfolding f2(2) c m by (simp add: f1(2))
    with c m show "r2 = r1 \<and> cs2 = cs1" by (simp add: f1(1) f2(1))
  qed
  have keepc: "\<forall>i. fst r1 i \<noteq> None \<longrightarrow> fst r2 i = fst r1 i"
  proof (intro allI impI)
    fix i assume "fst r1 i \<noteq> None"
    then have i: "r1c i \<noteq> None" by (simp add: f1(1))
    have "r2c i = r1c i"
      unfolding r2c_def
    proof (rule set_all_other)
      fix rows assume "resp_data (fst sc2) = Some rows"
      then have "ci_id ` set rows \<subseteq> set (filter (\<lambda>i. r1c i = None) Uc)"
        unfolding sc2_def by (rule select_clients_in_keys)
      with i show "i \<notin> ci_id ` set rows" by auto
    qed
    then show "fst r2 i = fst r1 i" by (simp add: f1(1) f2(1))
  qed
  have keepm: "\<forall>i. snd r1 i \<noteq> None \<longrightarrow> snd r2 i = snd r1 i"
  proof (intro allI impI)
    fix i assume "snd r1 i \<noteq> None"
    then have i: "r1m i \<noteq> None" by (simp add: f1(1))
    have "r2m i = r1m i"
      unfolding r2m_def
    proof (rule set_all_other)
      fix rows assume "resp_data (fst sm2) = Some rows"
      then have "mi_id ` set rows \<subseteq> set (filter (\<lambda>i. r1m i = None) Um)"
        unfolding sm2_def by (rule select_modalities_in_keys)
      with i show "i \<notin> mi_id ` set rows" by auto
    qed
    then show "snd r2 i = snd r1 i" by (simp add: f1(1) f2(1))
  qed
  have iss2: "issued rem1 rem2 =
      (if filter (\<lambda>i. r1c i = None) Uc = [] then []
       else [SelectClientsIn (filter (\<lambda>i. r1c i = None) Uc) uid]) @
      (if filter (\<lambda>i. r1m i = None) Um = [] then []
       else [SelectModalitiesIn (filter (\<lambda>i. r1m i = None) Um) uid])"
    using second_round_requests[OF False second]
    by (simp add: uid_def[symmetric] Uc_def[symmetric] Um_def[symmetric] hs)
  have iss1: "issued rem rem1 =
      (if filter (\<lambda>i. bc i = None) Uc = [] then []
       else [SelectClientsIn (filter (\<lambda>i. bc i = None) Uc) uid]) @
      (if filter (\<lambda>i. bm i = None) Um = [] then []
       else [SelectModalitiesIn (filter (\<lambda>i. bm i = None) Um) uid])"
    using second_round_requests[OF False first]
    by (simp add: uid_def[symmetric] Uc_def[symmetric] Um_def[symmetric] has_cache_entry
          bc_def bm_def)
  have dU: "distinct Uc" "distinct Um" by (simp_all add: Uc_def Um_def distinct_uniq)
  have reqc: "\<forall>ids a. SelectClientsIn ids a \<in> set (issued rem1 rem2) \<longrightarrow>
           distinct ids \<and> (\<forall>i \<in> set ids. \<not> has (clientsCache cs1 (account_id user_id)) i)"
    using dU by (auto simp: iss2 hs uid_def[symmetric] split: if_splits)
  have reqm: "\<forall>ids a. SelectModalitiesIn ids a \<in> set (issued rem1 rem2) \<longrightarrow>
           distinct ids \<and> (\<forall>i \<in> set ids. \<not> has (modalitiesCache cs1 (account_id user_id)) i)"
    using dU by (auto simp: iss2 hs uid_def[symmetric] split: if_splits)
  have d1: "\<forall>c \<in> set (issued rem rem1). distinct (requested_ids c)"
    using dU by (auto simp: iss1 split: if_splits)
  from same keepc keepm reqc reqm d1 show ?thesis by blast
qed

lemma first_round_value:
  "first_round =
     (([''c1'' \<mapsto> \<lparr>ci_id = ''c1'', ci_name = ''Ana Souza'', ci_phone = None\<rparr>],
       [''m1'' \<mapsto> \<lparr>mi_id = ''m1'', mi_name = ''Volei'', mi_valor = 120\<rparr>]),
      \<lparr>clientsCache = [''u1'' \<mapsto> [''c1'' \<mapsto> \<lparr>ci_id = ''c1'', ci_name = ''Ana Souza'', ci_phone = None\<rparr>]],
       modalitiesCache = [''u1'' \<mapsto> [''m1'' \<mapsto> \<lparr>mi_id = ''m1'', mi_name = ''Volei'', mi_valor = 120\<rparr>]]\<rparr>,
      sample_remote\<lparr>rem_calls := [SelectClientsIn [''c1''] ''u1'', SelectModalitiesIn [''m1''] ''u1'']\<rparr>)"
  by (simp add: first_round_def fetchRelatedData_def sample_apt_def empty_caches_def
        sample_remote_def sample_client_def sample_modality_def no_faults_def account_id_def
        uniq_def truthy_values_def truthy_def List.map_filter_def has_def set_all_def
        select_clients_in_def select_modalities_in_def record_call_def as_client_info_def
        as_modality_info_def cache_entry_def Let_def)

theorem fetchRelatedData_idempotent_witness:
  "fst second_round = fst first_round
   \<and> issued sample_remote (snd (snd first_round)) =
       [SelectClientsIn [''c1''] ''u1'', SelectModalitiesIn [''m1''] ''u1'']
   \<and> issued (snd (snd first_round)) (snd (snd second_round)) = []
   \<and> fst (fst second_round) ''c1'' =
       Some \<lparr>ci_id = ''c1'', ci_name = ''Ana Souza'', ci_phone = None\<rparr>"
proof -
  have first: "fetchRelatedData (Some ''u1'') no_faults
       [sample_apt ''a1'' ''agendado'' 120, sample_apt ''a2'' ''pago'' 120]
       empty_caches sample_remote =
       (fst first_round, fst (snd first_round), snd (snd first_round))"
    by (simp add: first_round_def)
  have second: "fetchRelatedData (Some ''u1'') no_faults
       [sample_apt ''a1'' ''agendado'' 120, sample_apt ''a2'' ''pago'' 120]
       (fst (snd first_round)) (snd (snd first_round)) =
       (fst second_round, fst (snd second_round), snd (snd second_round))"
    by (simp add: second_round_def)
  note inst = fetchRelatedData_idempotent [OF first second]
  from inst have a: "fst second_round = fst first_round" by blast
  have b: "issued sample_remote (snd (snd first_round)) =
       [SelectClientsIn [''c1''] ''u1'', SelectModalitiesIn [''m1''] ''u1'']"
    by (simp add: first_round_value issued_def sample_remote_def)
  have c: "issued (snd (snd first_round)) (snd (snd second_round)) = []"
    by (simp add: second_round_def first_round_value fetchRelatedData_def sample_apt_def
        sample_remote_def no_faults_def account_id_def
        uniq_def truthy_values_def truthy_def List.map_filter_def has_def set_all_def
        select_clients_in_def select_modalities_in_def issued_def cache_entry_def Let_def)
  have d: "fst (fst second_round) ''c1'' =
       Some \<lparr>ci_id = ''c1'', ci_name = ''Ana Souza'', ci_phone = None\<rparr>"
    by (simp add: a first_round_value)
  from a b c d show ?thesis by blast
qed

section \<open>Properties of deleting a client\<close>

text \<open>
  Lower-casing reaches the accented capitals: the capital E with acute accent, 0xC9,
  becomes 0xE9.
\<close>

lemma toLowerCase_accent:
  "toLowerCase [CHR ''J'', CHR ''O'', CHR ''S'', CHR 0xC9] =
     [CHR ''j'', CHR ''o'', CHR ''s'', CHR 0xE9]"
  by (simp add: toLowerCase_def lower_char_def upper_letters_def lower_letters_def)

text \<open>
  C9 as stated fails on the confirmation: the button compares the typed text and the
  name after trimming and lower-casing both, so a text that is not the client's exact
  name enables it.
\<close>

theorem delete_enabled_by_other_spelling:
  "clientToDelete sample_page = Some sample_client
   \<and> appointmentsForClient sample_page \<noteq> []
   \<and> confirmClientName sample_page \<noteq> cli_name sample_client
   \<and> \<not> delete_disabled sample_page"
  by (simp add: sample_page_def sample_client_def delete_disabled_def toLowerCase_def trim_def
        is_ws_def lower_char_def upper_letters_def lower_letters_def)

lemma delete_client_row_remote:
  assumes "fault (DeleteClient (cli_id c) uid) = None"
  shows "rem_calls (snd (delete_client_row uid fault c ui rem)) =
           rem_calls rem @ [DeleteClient (cli_id c) uid]"
    and "rem_appointments (snd (delete_client_row uid fault c ui rem)) = rem_appointments rem"
    and "rem_clients (snd (delete_client_row uid fault c ui rem)) =
           filter (\<lambda>x. \<not> (cli_id x = cli_id c \<and> cli_user_id x = uid)) (rem_clients rem)"
  using assms by (simp_all add: delete_client_row_def record_call_def Let_def)

lemma handleDeleteClient_remote:
  assumes "clientToDelete ui = Some c"
    and "fault (DeleteClient (cli_id c) uid) = None"
  shows "appointmentsForClient ui \<noteq> [] \<Longrightarrow>
           fault (DeleteAppointmentsOfClient (cli_id c) uid) = None \<Longrightarrow>
           rem_calls (snd (handleDeleteClient uid fault ui rem)) =
             rem_calls rem @ [DeleteAppointmentsOfClient (cli_id c) uid, DeleteClient (cli_id c) uid]
           \<and> rem_appointments (snd (handleDeleteClient uid fault ui rem)) =
               filter (\<lambda>a. \<not> (apt_client_id a = Some (cli_id c) \<and> apt_user_id a = uid))
                 (rem_appointments rem)
           \<and> rem_clients (snd (handleDeleteClient uid fault ui rem)) =
               filter (\<lambda>x. \<not> (cli_id x = cli_id c \<and> cli_user_id x = uid)) (rem_clients rem)"
    and "appointmentsForClient ui = [] \<Longrightarrow>
           rem_calls (snd (handleDeleteClient uid fault ui rem)) =
             rem_calls rem @ [DeleteClient (cli_id c) uid]
           \<and> rem_appointments (snd (handleDeleteClient uid fault ui rem)) = rem_appointments rem
           \<and> rem_clients (snd (handleDeleteClient uid fault ui rem)) =
               filter (\<lambda>x. \<not> (cli_id x = cli_id c \<and> cli_user_id x = uid)) (rem_clients rem)"
proof -
  note f = assms(2)
  {
    assume a: "appointmentsForClient ui \<noteq> []"
      and g: "fault (DeleteAppointmentsOfClient (cli_id c) uid) = None"
    let ?rem1 = "(record_call (DeleteAppointmentsOfClient (cli_id c) uid) rem)
                 \<lparr>rem_appointments :=
                    filter (\<lambda>a. \<not> (apt_client_id a = Some (cli_id c) \<and> apt_user_id a = uid))
                      (rem_appointments (record_call (DeleteAppointmentsOfClient (cli_id c) uid) rem))\<rparr>"
    have h: "handleDeleteClient uid fault ui rem = delete_client_row uid fault c ui ?rem1"
      using a g assms(1) by (simp add: handleDeleteClient_def Let_def)
    show "rem_calls (snd (handleDeleteClient uid fault ui rem)) =
             rem_calls rem @ [DeleteAppointmentsOfClient (cli_id c) uid, DeleteClient (cli_id c) uid]
           \<and> rem_appointments (snd (handleDeleteClient uid fault ui rem)) =
               filter (\<lambda>a. \<not> (apt_client_id a = Some (cli_id c) \<and> apt_user_id a = uid))
                 (rem_appointments rem)
           \<and> rem_clients (snd (handleDeleteClient uid fault ui rem)) =
               filter (\<lambda>x. \<not> (cli_id x = cli_id c \<and> cli_user_id x = uid)) (rem_clients rem)"
      by (simp add: h delete_client_row_remote[where fault=fault and c=c and uid=uid, OF f]
            record_call_def)
  }
  {
    assume a: "appointmentsForClient ui = []"
    have h: "handleDeleteClient uid fault ui rem = delete_client_row uid fault c ui rem"
      using a assms(1) by (simp add: handleDeleteClient_def)
    show "rem_calls (snd (handleDeleteClient uid fault ui rem)) =
             rem_calls rem @ [DeleteClient (cli_id c) uid]
           \<and> rem_appointments (snd (handleDeleteClient uid fault ui rem)) = rem_appointments rem
           \<and> rem_clients (snd (handleDeleteClient uid fault ui rem)) =
               filter (\<lambda>x. \<not> (cli_id x = cli_id c \<and> cli_user_id x = uid)) (rem_clients rem)"
      by (simp add: h delete_client_row_remote[where fault=fault and c=c and uid=uid, OF f])
  }
qed

text \<open>What the dialog holds once both of its requests were answered without error.\<close>

lemma select_modalities_in_error:
  "resp_error (fst (select_modalities_in fault ids uid rem)) =
     (if ids = [] then None else fault (SelectModalitiesIn ids uid))"
  by (simp add: select_modalities_in_def split: option.splits)

lemma openDeleteModal_loaded:
  assumes "fault (SelectAppointmentsOfClient (cli_id c) uid) = None"
    and "\<forall>ids. fault (SelectModalitiesIn ids uid) = None"
  shows "clientToDelete (fst (openDeleteModal uid fault by_date_desc c ui rem)) = Some c"
    and "\<not> loadingAppointments (fst (openDeleteModal uid fault by_date_desc c ui rem))"
    and "isDeleting (fst (openDeleteModal uid fault by_date_desc c ui rem)) = isDeleting ui"
    and "length (appointmentsForClient (fst (openDeleteModal uid fault by_date_desc c ui rem))) =
           length (by_date_desc
             (filter (\<lambda>a. apt_client_id a = Some (cli_id c) \<and> apt_user_id a = uid)
                (rem_appointments rem)))"
    and "rem_appointments (snd (openDeleteModal uid fault by_date_desc c ui rem)) =
           rem_appointments rem"
    and "rem_clients (snd (openDeleteModal uid fault by_date_desc c ui rem)) = rem_clients rem"
  using assms
  by (simp_all add: openDeleteModal_def openDeleteModal_start_def Let_def
        select_modalities_in_error select_modalities_in_tables record_call_def)

text \<open>
  Between the opening of the dialog and the arrival of the list the button does not
  wait for the list; C9 as amended below says nothing about that time.
\<close>

lemma delete_enabled_while_loading:
  "\<not> isDeleting ui \<Longrightarrow> \<not> delete_disabled (openDeleteModal_start c ui)"
  by (simp add: delete_disabled_def openDeleteModal_start_def)

text \<open>
  C9, amended. Take a client of the account and the dialog after it has loaded the
  client's appointments (both of its requests answered without error), with no deletion
  running and any text typed since. The dialog then holds as many lines as the client
  has appointments in the store. When the client has at least one, the delete button
  is disabled exactly while the typed text differs from the client's name after
  trimming and lower-casing both; and a deletion the store accepts first asks it to
  delete the appointments whose client is this client's id in this account, which
  removes exactly those rows, and then to delete the client row. When the client has
  none, the button is enabled whatever the text, and the deletion only sends the
  request for the client row and leaves the appointments as they are.
\<close>

theorem delete_client_cascade:
  assumes "\<not> isDeleting ui"
    and "openDeleteModal uid fault by_date_desc c ui rem = (ui1, rem1)"
    and "fault (SelectAppointmentsOfClient (cli_id c) uid) = None"
    and "\<forall>ids. fault (SelectModalitiesIn ids uid) = None"
    and "\<forall>xs. length (by_date_desc xs) = length xs"
  shows "clientToDelete ui1 = Some c \<and> \<not> loadingAppointments ui1
       \<and> length (appointmentsForClient ui1) =
           length (filter (\<lambda>a. apt_client_id a = Some (cli_id c) \<and> apt_user_id a = uid)
                     (rem_appointments rem))
       \<and> ((\<exists>a \<in> set (rem_appointments rem).
              apt_client_id a = Some (cli_id c) \<and> apt_user_id a = uid) \<longrightarrow>
            (delete_disabled (ui1\<lparr>confirmClientName := t\<rparr>) \<longleftrightarrow>
               toLowerCase (trim t) \<noteq> toLowerCase (trim (cli_name c)))
          \<and> (fault (DeleteAppointmentsOfClient (cli_id c) uid) = None
              \<and> fault (DeleteClient (cli_id c) uid) = None \<longrightarrow>
              rem_calls (snd (handleDeleteClient uid fault (ui1\<lparr>confirmClientName := t\<rparr>) rem1)) =
                rem_calls rem1 @
                  [DeleteAppointmentsOfClient (cli_id c) uid, DeleteClient (cli_id c) uid]
              \<and> rem_appointments
                  (snd (handleDeleteClient uid fault (ui1\<lparr>confirmClientName := t\<rparr>) rem1)) =
                  filter (\<lambda>a. \<not> (apt_client_id a = Some (cli_id c) \<and> apt_user_id a = uid))
                    (rem_appointments rem)
              \<and> rem_clients
                  (snd (handleDeleteClient uid fault (ui1\<lparr>confirmClientName := t\<rparr>) rem1)) =
                  filter (\<lambda>x. \<not> (cli_id x = cli_id c \<and> cli_user_id x = uid)) (rem_clients rem)))
       \<and> (\<not> (\<exists>a \<in> set (rem_appointments rem).
              apt_client_id a = Some (cli_id c) \<and> apt_user_id a = uid) \<longrightarrow>
            \<not> delete_disabled (ui1\<lparr>confirmClientName := t\<rparr>)
          \<and> (fault (DeleteClient (cli_id c) uid) = None \<longrightarrow>
              rem_calls (snd (handleDeleteClient uid fault (ui1\<lparr>confirmClientName := t\<rparr>) rem1)) =
                rem_calls rem1 @ [DeleteClient (cli_id c) uid]
              \<and> rem_appointments
                  (snd (handleDeleteClient uid fault (ui1\<lparr>confirmClientName := t\<rparr>) rem1)) =
                  rem_appointments rem
              \<and> rem_clients
                  (snd (handleDeleteClient uid fault (ui1\<lparr>confirmClientName := t\<rparr>) rem1)) =
                  filter (\<lambda>x. \<not> (cli_id x = cli_id c \<and> cli_user_id x = uid)) (rem_clients rem)))"
proof -
  let ?mine = "filter (\<lambda>a. apt_client_id a = Some (cli_id c) \<and> apt_user_id a = uid)
                 (rem_appointments rem)"
  let ?ui = "ui1\<lparr>confirmClientName := t\<rparr>"
  note ld = openDeleteModal_loaded[OF assms(3,4), of by_date_desc ui rem]
  have c1: "clientToDelete ui1 = Some c" and l1: "\<not> loadingAppointments ui1"
    and d1: "\<not> isDeleting ui1"
    and n1: "length (appointmentsForClient ui1) = length ?mine"
    and ta: "rem_appointments rem1 = rem_appointments rem"
    and tc: "rem_clients rem1 = rem_clients rem"
    using ld assms(1,2,5) by simp_all
  have cu: "clientToDelete ?ui = Some c" and du: "\<not> isDeleting ?ui"
    and au: "appointmentsForClient ?ui = appointmentsForClient ui1"
    using c1 d1 by simp_all
  have ex: "(\<exists>a \<in> set (rem_appointments rem).
              apt_client_id a = Some (cli_id c) \<and> apt_user_id a = uid) \<longleftrightarrow>
            appointmentsForClient ui1 \<noteq> []"
  proof -
    have "appointmentsForClient ui1 \<noteq> [] \<longleftrightarrow> ?mine \<noteq> []"
      using n1 by (metis length_0_conv)
    then show ?thesis by (auto simp: filter_empty_conv)
  qed
  have part1: "clientToDelete ui1 = Some c \<and> \<not> loadingAppointments ui1
       \<and> length (appointmentsForClient ui1) = length ?mine"
    using c1 l1 n1 by simp
  have part2: "(\<exists>a \<in> set (rem_appointments rem).
              apt_client_id a = Some (cli_id c) \<and> apt_user_id a = uid) \<longrightarrow>
            (delete_disabled ?ui \<longleftrightarrow>
               toLowerCase (trim t) \<noteq> toLowerCase (trim (cli_name c)))
          \<and> (fault (DeleteAppointmentsOfClient (cli_id c) uid) = None
              \<and> fault (DeleteClient (cli_id c) uid) = None \<longrightarrow>
              rem_calls (snd (handleDeleteClient uid fault ?ui rem1)) =
                rem_calls rem1 @
                  [DeleteAppointmentsOfClient (cli_id c) uid, DeleteClient (cli_id c) uid]
              \<and> rem_appointments (snd (handleDeleteClient uid fault ?ui rem1)) =
                  filter (\<lambda>a. \<not> (apt_client_id a = Some (cli_id c) \<and> apt_user_id a = uid))
                    (rem_appointments rem)
              \<and> rem_clients (snd (handleDeleteClient uid fault ?ui rem1)) =
                  filter (\<lambda>x. \<not> (cli_id x = cli_id c \<and> cli_user_id x = uid)) (rem_clients rem))"
  proof (intro impI conjI)
    assume "\<exists>a \<in> set (rem_appointments rem).
              apt_client_id a = Some (cli_id c) \<and> apt_user_id a = uid"
    then have ne: "appointmentsForClient ?ui \<noteq> []" using ex au by simp
    show "delete_disabled ?ui \<longleftrightarrow> toLowerCase (trim t) \<noteq> toLowerCase (trim (cli_name c))"
      using ne cu du by (simp add: delete_disabled_def)
    {
      assume f: "fault (DeleteAppointmentsOfClient (cli_id c) uid) = None
              \<and> fault (DeleteClient (cli_id c) uid) = None"
      from handleDeleteClient_remote(1)
             [where fault=fault and uid=uid and rem=rem1 and c=c and ui="?ui", OF cu _ ne] f
      show "rem_calls (snd (handleDeleteClient uid fault ?ui rem1)) =
                rem_calls rem1 @
                  [DeleteAppointmentsOfClient (cli_id c) uid, DeleteClient (cli_id c) uid]"
        and "rem_appointments (snd (handleDeleteClient uid fault ?ui rem1)) =
                  filter (\<lambda>a. \<not> (apt_client_id a = Some (cli_id c) \<and> apt_user_id a = uid))
                    (rem_appointments rem)"
        and "rem_clients (snd (handleDeleteClient uid fault ?ui rem1)) =
                  filter (\<lambda>x. \<not> (cli_id x = cli_id c \<and> cli_user_id x = uid)) (rem_clients rem)"
        by (simp_all add: ta tc)
    }
  qed
  have part3: "\<not> (\<exists>a \<in> set (rem_appointments rem).
              apt_client_id a = Some (cli_id c) \<and> apt_user_id a = uid) \<longrightarrow>
            \<not> delete_disabled ?ui
          \<and> (fault (DeleteClient (cli_id c) uid) = None \<longrightarrow>
              rem_calls (snd (handleDeleteClient uid fault ?ui rem1)) =
                rem_calls rem1 @ [DeleteClient (cli_id c) uid]
              \<and> rem_appointments (snd (handleDeleteClient uid fault ?ui rem1)) =
                  rem_appointments rem
              \<and> rem_clients (snd (handleDeleteClient uid fault ?ui rem1)) =
                  filter (\<lambda>x. \<not> (cli_id x = cli_id c \<and> cli_user_id x = uid)) (rem_clients rem))"
  proof (intro impI conjI)
    assume "\<not> (\<exists>a \<in> set (rem_appointments rem).
              apt_client_id a = Some (cli_id c) \<and> apt_user_id a = uid)"
    then have e: "appointmentsForClient ?ui = []" using ex au by simp
    show "\<not> delete_disabled ?ui" using e cu du by (simp add: delete_disabled_def)
    {
      assume f: "fault (DeleteClient (cli_id c) uid) = None"
      from handleDeleteClient_remote(2)
             [where fault=fault and uid=uid and rem=rem1 and c=c and ui="?ui", OF cu f e]
      show "rem_calls (snd (handleDeleteClient uid fault ?ui rem1)) =
                rem_calls rem1 @ [DeleteClient (cli_id c) uid]"
        and "rem_appointments (snd (handleDeleteClient uid fault ?ui rem1)) = rem_appointments rem"
        and "rem_clients (snd (handleDeleteClient uid fault ?ui rem1)) =
                  filter (\<lambda>x. \<not> (cli_id x = cli_id c \<and> cli_user_id x = uid)) (rem_clients rem)"
        by (simp_all add: ta tc)
    }
  qed
  from part1 part2 part3 show ?thesis by blast
qed

theorem delete_client_cascade_witness:
  "length (appointmentsForClient
      (fst (openDeleteModal ''u1'' no_faults rev sample_client sample_page sample_remote))) = 1
   \<and> \<not> delete_disabled
        ((fst (openDeleteModal ''u1'' no_faults rev sample_client sample_page sample_remote))
           \<lparr>confirmClientName := ''ana souza ''\<rparr>)
   \<and> delete_disabled
        ((fst (openDeleteModal ''u1'' no_faults rev sample_client sample_page sample_remote))
           \<lparr>confirmClientName := ''Ana''\<rparr>)
   \<and> rem_appointments (snd (handleDeleteClient ''u1'' no_faults
        ((fst (openDeleteModal ''u1'' no_faults rev sample_client sample_page sample_remote))
           \<lparr>confirmClientName := ''ana souza ''\<rparr>)
        (snd (openDeleteModal ''u1'' no_faults rev sample_client sample_page sample_remote)))) = []
   \<and> rem_calls (snd (handleDeleteClient ''u1'' no_faults
        ((fst (openDeleteModal ''u1'' no_faults rev sample_client sample_page sample_remote))
           \<lparr>confirmClientName := ''ana souza ''\<rparr>)
        (snd (openDeleteModal ''u1'' no_faults rev sample_client sample_page sample_remote)))) =
       [SelectAppointmentsOfClient ''c1'' ''u1'', SelectModalitiesIn [''m1''] ''u1'',
        DeleteAppointmentsOfClient ''c1'' ''u1'', DeleteClient ''c1'' ''u1'']
   \<and> \<not> delete_disabled
        ((fst (openDeleteModal ''u1'' no_faults rev other_client sample_page sample_remote))
           \<lparr>confirmClientName := []\<rparr>)
   \<and> rem_appointments (snd (handleDeleteClient ''u1'' no_faults
        ((fst (openDeleteModal ''u1'' no_faults rev other_client sample_page sample_remote))
           \<lparr>confirmClientName := []\<rparr>)
        (snd (openDeleteModal ''u1'' no_faults rev other_client sample_page sample_remote)))) =
       rem_appointments sample_remote"
proof -
  let ?R = "openDeleteModal ''u1'' no_faults rev sample_client sample_page sample_remote"
  let ?R9 = "openDeleteModal ''u1'' no_faults rev other_client sample_page sample_remote"
  have nd: "\<not> isDeleting sample_page" by (simp add: sample_page_def)
  have p: "?R = (fst ?R, snd ?R)" and p9: "?R9 = (fst ?R9, snd ?R9)" by simp_all
  have f1: "no_faults (SelectAppointmentsOfClient (cli_id sample_client) ''u1'') = None"
    and f2: "\<forall>ids. no_faults (SelectModalitiesIn ids ''u1'') = None"
    and f3: "no_faults (DeleteAppointmentsOfClient (cli_id sample_client) ''u1'') = None
             \<and> no_faults (DeleteClient (cli_id sample_client) ''u1'') = None"
    and f4: "no_faults (SelectAppointmentsOfClient (cli_id other_client) ''u1'') = None"
    and f5: "no_faults (DeleteClient (cli_id other_client) ''u1'') = None"
    by (simp_all add: no_faults_def)
  have ord: "\<forall>xs :: appointment list. length (rev xs) = length xs" by simp
  have has: "\<exists>a \<in> set (rem_appointments sample_remote).
      apt_client_id a = Some (cli_id sample_client) \<and> apt_user_id a = ''u1''"
    by (simp add: sample_remote_def sample_apt_def sample_client_def)
  have none: "\<not> (\<exists>a \<in> set (rem_appointments sample_remote).
      apt_client_id a = Some (cli_id other_client) \<and> apt_user_id a = ''u1'')"
    by (simp add: sample_remote_def sample_apt_def other_client_def)
  have same: "toLowerCase (trim ''ana souza '') = toLowerCase (trim (cli_name sample_client))"
    by (simp add: sample_client_def toLowerCase_def trim_def is_ws_def lower_char_def
          upper_letters_def lower_letters_def)
  have diff: "toLowerCase (trim ''Ana'') \<noteq> toLowerCase (trim (cli_name sample_client))"
    by (simp add: sample_client_def toLowerCase_def trim_def is_ws_def lower_char_def
          upper_letters_def lower_letters_def)
  note typed = delete_client_cascade [OF nd p f1 f2 ord, where t="''ana souza ''"]
  note short = delete_client_cascade [OF nd p f1 f2 ord, where t="''Ana''"]
  note other = delete_client_cascade [OF nd p9 f4 f2 ord, where t="[]"]
  have n: "length (appointmentsForClient (fst ?R)) = 1"
    using typed by (simp add: sample_remote_def sample_apt_def sample_client_def)
  have a: "\<not> delete_disabled ((fst ?R)\<lparr>confirmClientName := ''ana souza ''\<rparr>)"
    using typed has same by blast
  have b: "delete_disabled ((fst ?R)\<lparr>confirmClientName := ''Ana''\<rparr>)"
    using short has diff by blast
  have calls: "rem_calls (snd ?R) =
      [SelectAppointmentsOfClient ''c1'' ''u1'', SelectModalitiesIn [''m1''] ''u1'']"
    by (simp add: openDeleteModal_def openDeleteModal_start_def sample_remote_def
          sample_apt_def sample_client_def no_faults_def select_modalities_in_def
          record_call_def uniq_def truthy_values_def truthy_def List.map_filter_def Let_def)
  from typed has f3
  have "rem_calls (snd (handleDeleteClient ''u1'' no_faults
            ((fst ?R)\<lparr>confirmClientName := ''ana souza ''\<rparr>) (snd ?R))) =
          rem_calls (snd ?R) @
            [DeleteAppointmentsOfClient (cli_id sample_client) ''u1'',
             DeleteClient (cli_id sample_client) ''u1'']
        \<and> rem_appointments (snd (handleDeleteClient ''u1'' no_faults
            ((fst ?R)\<lparr>confirmClientName := ''ana souza ''\<rparr>) (snd ?R))) =
          filter (\<lambda>a. \<not> (apt_client_id a = Some (cli_id sample_client) \<and> apt_user_id a = ''u1''))
            (rem_appointments sample_remote)"
    by blast
  then have c0: "rem_appointments (snd (handleDeleteClient ''u1'' no_faults
            ((fst ?R)\<lparr>confirmClientName := ''ana souza ''\<rparr>) (snd ?R))) =
          filter (\<lambda>a. \<not> (apt_client_id a = Some (cli_id sample_client) \<and> apt_user_id a = ''u1''))
            (rem_appointments sample_remote)"
    and d0: "rem_calls (snd (handleDeleteClient ''u1'' no_faults
            ((fst ?R)\<lparr>confirmClientName := ''ana souza ''\<rparr>) (snd ?R))) =
          rem_calls (snd ?R) @
            [DeleteAppointmentsOfClient (cli_id sample_client) ''u1'',
             DeleteClient (cli_id sample_client) ''u1'']"
    by blast+
  have cid: "cli_id sample_client = ''c1''" by (simp add: sample_client_def)
  have fl: "filter (\<lambda>a. \<not> (apt_client_id a = Some (cli_id sample_client) \<and> apt_user_id a = ''u1''))
            (rem_appointments sample_remote) = []"
    by (simp add: sample_remote_def sample_apt_def sample_client_def)
  have c: "rem_appointments (snd (handleDeleteClient ''u1'' no_faults
            ((fst ?R)\<lparr>confirmClientName := ''ana souza ''\<rparr>) (snd ?R))) = []"
    using c0 fl by simp
  have d: "rem_calls (snd (handleDeleteClient ''u1'' no_faults
            ((fst ?R)\<lparr>confirmClientName := ''ana souza ''\<rparr>) (snd ?R))) =
       [SelectAppointmentsOfClient ''c1'' ''u1'', SelectModalitiesIn [''m1''] ''u1'',
        DeleteAppointmentsOfClient ''c1'' ''u1'', DeleteClient ''c1'' ''u1'']"
    using d0 by (simp add: calls cid)
  have e: "\<not> delete_disabled ((fst ?R9)\<lparr>confirmClientName := []\<rparr>)"
    using other none by blast
  have g: "rem_appointments (snd (handleDeleteClient ''u1'' no_faults
        ((fst ?R9)\<lparr>confirmClientName := []\<rparr>) (snd ?R9))) = rem_appointments sample_remote"
    using other none f5 by blast
  from n a b c d e g show ?thesis by blast
qed

end
